theory Spec2Isabelle
  imports Main
begin

section \<open>Text as the interpreter has it\<close>

text \<open>
  A Python \<open>str\<close> is a sequence of Unicode code points, and \<open>len\<close>, \<open>strip\<close>, \<open>split\<close>
  and the \<open>re\<close> module all work on code points. A string is therefore a list of code
  points, each a natural number; \<open>ascii\<close> injects a literal of plain characters.
\<close>

type_synonym pystr = "nat list"

definition ascii :: "string \<Rightarrow> pystr" where
  "ascii s = map of_char s"

text \<open>
  The code points whose decimal value is zero, one per block of ten consecutive decimal
  digits (general category Nd, Unicode 14.0, the database of CPython 3.11). Both
  \<open>\d\<close> of \<open>re\<close> on a \<open>str\<close> pattern and \<open>int()\<close> read this table: \<open>\d\<close> matches every
  decimal digit of every script, and \<open>int()\<close> gives each its value.
\<close>

definition unicode_zeros :: "nat list" where
  "unicode_zeros =
     [0x30, 0x660, 0x6F0, 0x7C0, 0x966, 0x9E6, 0xA66, 0xAE6, 0xB66, 0xBE6, 0xC66, 0xCE6,
      0xD66, 0xDE6, 0xE50, 0xED0, 0xF20, 0x1040, 0x1090, 0x17E0, 0x1810, 0x1946, 0x19D0,
      0x1A80, 0x1A90, 0x1B50, 0x1BB0, 0x1C40, 0x1C50, 0xA620, 0xA8D0, 0xA900, 0xA9D0,
      0xA9F0, 0xAA50, 0xABF0, 0xFF10, 0x104A0, 0x10D30, 0x11066, 0x110F0, 0x11136,
      0x111D0, 0x112F0, 0x11450, 0x114D0, 0x11650, 0x116C0, 0x11730, 0x118E0, 0x11950,
      0x11C50, 0x11D50, 0x11DA0, 0x16A60, 0x16AC0, 0x16B50, 0x1D7CE, 0x1D7D8, 0x1D7E2,
      0x1D7EC, 0x1D7F6, 0x1E140, 0x1E2F0, 0x1E950, 0x1FBF0]"

definition decimal :: "nat \<Rightarrow> nat option" where
  "decimal c = map_option (\<lambda>z. c - z) (find (\<lambda>z. z \<le> c \<and> c < z + 10) unicode_zeros)"

definition is_decimal :: "nat \<Rightarrow> bool" where
  "is_decimal c = (decimal c \<noteq> None)"

text \<open>The code points \<open>str.isspace\<close> holds of; \<open>strip()\<close> drops them at both ends.\<close>

definition is_space :: "nat \<Rightarrow> bool" where
  "is_space c =
     ((0x09 \<le> c \<and> c \<le> 0x0D) \<or> (0x1C \<le> c \<and> c \<le> 0x20) \<or> c = 0x85 \<or> c = 0xA0 \<or>
      c = 0x1680 \<or> (0x2000 \<le> c \<and> c \<le> 0x200A) \<or> c = 0x2028 \<or> c = 0x2029 \<or>
      c = 0x202F \<or> c = 0x205F \<or> c = 0x3000)"

definition strip_with :: "(nat \<Rightarrow> bool) \<Rightarrow> pystr \<Rightarrow> pystr" where
  "strip_with space s = rev (dropWhile space (rev (dropWhile space s)))"

definition py_strip :: "pystr \<Rightarrow> pystr" where
  "py_strip s = strip_with is_space s"

text \<open>
  \<open>s.split(sep)\<close> for a separator of one code point: every occurrence cuts, and empty
  pieces are kept. The second argument is the piece being read, in reverse.
\<close>

fun split_from :: "nat \<Rightarrow> pystr \<Rightarrow> pystr \<Rightarrow> pystr list" where
  "split_from sep piece [] = [rev piece]"
| "split_from sep piece (c # cs) =
     (if c = sep then rev piece # split_from sep [] cs else split_from sep (c # piece) cs)"

definition py_split :: "pystr \<Rightarrow> nat \<Rightarrow> pystr list" where
  "py_split s sep = split_from sep [] s"

text \<open>
  \<open>int(s)\<close> in base ten: white space is dropped at both ends, one sign may lead, and
  the rest is a run of decimal digits in which single underscores may stand between two
  digits. Anything else raises \<open>ValueError\<close>, the value \<open>None\<close> here. The white space of
  \<open>int\<close> is that of \<open>strip\<close> without the four separators U+001C to U+001F, which
  \<open>int\<close> refuses. (The interpreter's limit on the number of digits, 4300 by default, lies
  far beyond the three digits the validator lets through and is left out.)
\<close>

definition int_space :: "nat \<Rightarrow> bool" where
  "int_space c = (is_space c \<and> (c < 0x1C \<or> 0x1F < c))"

fun int_digits :: "nat \<Rightarrow> pystr \<Rightarrow> nat option" where
  "int_digits acc [] = Some acc"
| "int_digits acc (c # cs) =
     (case decimal c of
        Some d \<Rightarrow> int_digits (10 * acc + d) cs
      | None \<Rightarrow>
          (if c = 0x5F then
             (case cs of
                [] \<Rightarrow> None
              | c' # _ \<Rightarrow> if is_decimal c' then int_digits acc cs else None)
           else None))"

definition int_literal :: "pystr \<Rightarrow> nat option" where
  "int_literal s =
     (case s of [] \<Rightarrow> None | c # _ \<Rightarrow> if is_decimal c then int_digits 0 s else None)"

definition py_int :: "pystr \<Rightarrow> int option" where
  "py_int s =
     (case strip_with int_space s of
        [] \<Rightarrow> None
      | c # cs \<Rightarrow>
          if c = 0x2D then map_option (\<lambda>n. - int n) (int_literal cs)
          else if c = 0x2B then map_option int (int_literal cs)
          else map_option int (int_literal (c # cs)))"

section \<open>Regular expressions\<close>

text \<open>
  The fragment of \<open>re\<close> that the validator's pattern is written in: the anchors \<open>^\<close> and
  \<open>$\<close>, the class \<open>\d\<close>, a literal code point, concatenation (a group is a
  concatenation) and the bounded repetition \<open>{lo,hi}\<close>.

  \<open>match_ends p (i, rest)\<close> lists every state in which a match of \<open>p\<close> that starts
  at offset \<open>i\<close>, with \<open>rest\<close> still to read, can end: the choices a backtracking
  matcher runs through. Without the MULTILINE flag \<open>^\<close> holds at offset 0 only, and
  \<open>$\<close> holds at the end of the text and also just before a newline that is the last
  code point of the text.
\<close>

datatype regex = Bol | Eol | Digit | Lit nat | Seq regex regex | Repeat nat nat regex

function match_ends :: "regex \<Rightarrow> nat \<times> pystr \<Rightarrow> (nat \<times> pystr) list" where
  "match_ends Bol (i, r) = (if i = 0 then [(i, r)] else [])"
| "match_ends Eol (i, r) = (if r = [] \<or> r = [0x0A] then [(i, r)] else [])"
| "match_ends Digit (i, r) =
     (case r of [] \<Rightarrow> [] | c # cs \<Rightarrow> if is_decimal c then [(Suc i, cs)] else [])"
| "match_ends (Lit a) (i, r) =
     (case r of [] \<Rightarrow> [] | c # cs \<Rightarrow> if c = a then [(Suc i, cs)] else [])"
| "match_ends (Seq p q) st = concat (map (match_ends q) (match_ends p st))"
| "match_ends (Repeat lo 0 p) st = (if lo = 0 then [st] else [])"
| "match_ends (Repeat lo (Suc hi) p) st =
     (if lo = 0 then [st] else []) @
     concat (map (match_ends (Repeat (lo - 1) hi p)) (match_ends p st))"
  by pat_completeness auto
termination
  by (relation "measures [\<lambda>(p, st). size p,
        \<lambda>(p, st). (case p of Repeat lo hi q \<Rightarrow> hi | _ \<Rightarrow> 0)]") auto

text \<open>\<open>re.match(p, s)\<close> tries offset 0 only; its result is used for its truth value.\<close>

definition re_match :: "regex \<Rightarrow> pystr \<Rightarrow> bool" where
  "re_match p s = (match_ends p (0, s) \<noteq> [])"

section \<open>The address validator\<close>

text \<open>\<^verbatim>\<open>ipv4_pattern = r'^(\d{1,3}\.){3}\d{1,3}$'\<close>\<close>

definition ipv4_pattern :: regex where
  "ipv4_pattern =
     Seq Bol (Seq (Repeat 3 3 (Seq (Repeat 1 3 Digit) (Lit 0x2E)))
               (Seq (Repeat 1 3 Digit) Eol))"

text \<open>
  \<^verbatim>\<open>all(0 <= int(part) <= 255 for part in parts)\<close>: the parts are read in order, the
  first one out of range ends the run with \<open>False\<close>, and a part that \<open>int\<close> refuses
  raises.
\<close>

fun all_octets :: "pystr list \<Rightarrow> bool option" where
  "all_octets [] = Some True"
| "all_octets (part # parts) =
     (case py_int part of
        None \<Rightarrow> None
      | Some v \<Rightarrow> if 0 \<le> v \<and> v \<le> 255 then all_octets parts else Some False)"

text \<open>
  \<^verbatim>\<open>
  def is_valid_ip(ip):
      if re.match(ipv4_pattern, ip):
          parts = ip.split('.')
          if all(0 <= int(part) <= 255 for part in parts):
              return True
      return False
  \<close>
  The result is \<open>None\<close> where the call would raise.
\<close>

definition is_valid_ip :: "pystr \<Rightarrow> bool option" where
  "is_valid_ip ip =
     (if re_match ipv4_pattern ip then
        (case all_octets (py_split ip 0x2E) of
           None \<Rightarrow> None
         | Some ok \<Rightarrow> if ok then Some True else Some False)
      else Some False)"

section \<open>Values of the JSON payloads\<close>

text \<open>
  What \<open>response.json()\<close> returns: \<open>None\<close>, a truth value, an integer of any size, a
  float, a string, a list or a dictionary with string keys. The program only ever prints
  a float, so a float is given by the text \<open>str()\<close> prints for it (\<open>37.4\<close>,
  \<open>-122.1\<close>, \<open>1e-07\<close>). A dictionary is the list of its items, each key once.
\<close>

datatype pyval =
    PyNone
  | PyBool bool
  | PyInt int
  | PyFloat pystr
  | PyStr pystr
  | PyList "pyval list"
  | PyDict "(pystr \<times> pyval) list"

text \<open>
  The exceptions of class \<open>Exception\<close> that can reach the handlers of \<open>get_ip_info\<close>,
  each with the text \<open>str(e)\<close> gives. The three \<open>except\<close> clauses tell them apart by
  \<open>isinstance\<close> only, and in \<open>requests.exceptions\<close> the class \<open>ConnectTimeout\<close>, raised
  when no connection is made within the timeout, inherits from both \<open>ConnectionError\<close>
  and \<open>Timeout\<close>; \<open>ReadTimeout\<close> inherits from \<open>Timeout\<close> alone.
  \<^item> \<open>ConnectionError\<close>: a \<open>ConnectionError\<close> that is not a \<open>Timeout\<close>;
  \<^item> \<open>ConnectTimeout\<close>: both a \<open>ConnectionError\<close> and a \<open>Timeout\<close>;
  \<^item> \<open>Timeout\<close>: a \<open>Timeout\<close> that is not a \<open>ConnectionError\<close>, such as \<open>ReadTimeout\<close>;
  \<^item> \<open>OtherException\<close>: any other exception (\<open>JSONDecodeError\<close>, \<open>InvalidURL\<close>,
    \<open>KeyError\<close>, \<open>TypeError\<close>, \<open>AttributeError\<close>, ...).
\<close>

datatype exn =
    ConnectionError pystr
  | ConnectTimeout pystr
  | Timeout pystr
  | OtherException pystr

fun isinstance_ConnectionError :: "exn \<Rightarrow> bool" where
  "isinstance_ConnectionError (ConnectionError m) = True"
| "isinstance_ConnectionError (ConnectTimeout m) = True"
| "isinstance_ConnectionError (Timeout m) = False"
| "isinstance_ConnectionError (OtherException m) = False"

fun isinstance_Timeout :: "exn \<Rightarrow> bool" where
  "isinstance_Timeout (ConnectionError m) = False"
| "isinstance_Timeout (ConnectTimeout m) = True"
| "isinstance_Timeout (Timeout m) = True"
| "isinstance_Timeout (OtherException m) = False"

fun exc_str :: "exn \<Rightarrow> pystr" where
  "exc_str (ConnectionError m) = m"
| "exc_str (ConnectTimeout m) = m"
| "exc_str (Timeout m) = m"
| "exc_str (OtherException m) = m"

text \<open>A statement that may raise, followed by the statements after it.\<close>

definition and_then :: "exn + 'a \<Rightarrow> ('a \<Rightarrow> exn + 'b) \<Rightarrow> exn + 'b" where
  "and_then m f = (case m of Inl e \<Rightarrow> Inl e | Inr x \<Rightarrow> f x)"

text \<open>
  The world outside the program: \<open>http_get url\<close> is what \<open>requests.get(url, timeout=10)\<close>
  does, raising or returning a response, of which the program calls \<open>json()\<close> only, and
  \<open>repr_of\<close> is the text the interpreter prints for a list or a dictionary.
\<close>

datatype response = Response (json: "exn + pyval")

record env =
  http_get :: "pystr \<Rightarrow> exn + response"
  repr_of :: "pyval \<Rightarrow> pystr"

subsection \<open>Printing a value\<close>

function dec_digits :: "nat \<Rightarrow> pystr" where
  "dec_digits n = (if n < 10 then [0x30 + n] else dec_digits (n div 10) @ [0x30 + n mod 10])"
  by pat_completeness auto
termination
  by (relation "measure id") auto

text \<open>\<open>str(v)\<close>, which is what a replacement field \<open>{v}\<close> of an f-string puts into the text.\<close>

fun py_str :: "env \<Rightarrow> pyval \<Rightarrow> pystr" where
  "py_str w PyNone = ascii ''None''"
| "py_str w (PyBool b) = (if b then ascii ''True'' else ascii ''False'')"
| "py_str w (PyInt i) = (if i < 0 then [0x2D] @ dec_digits (nat (- i)) else dec_digits (nat i))"
| "py_str w (PyFloat r) = r"
| "py_str w (PyStr s) = s"
| "py_str w (PyList xs) = repr_of w (PyList xs)"
| "py_str w (PyDict kvs) = repr_of w (PyDict kvs)"

fun type_name :: "pyval \<Rightarrow> pystr" where
  "type_name PyNone = ascii ''NoneType''"
| "type_name (PyBool b) = ascii ''bool''"
| "type_name (PyInt i) = ascii ''int''"
| "type_name (PyFloat r) = ascii ''float''"
| "type_name (PyStr s) = ascii ''str''"
| "type_name (PyList xs) = ascii ''list''"
| "type_name (PyDict kvs) = ascii ''dict''"

subsection \<open>The three operations on a payload\<close>

text \<open>
  The texts of the exceptions are those of CPython 3.11; no statement below depends on
  their wording. \<open>d[k]\<close> for a string key \<open>k\<close> of plain letters:
\<close>

fun py_getitem :: "pyval \<Rightarrow> pystr \<Rightarrow> exn + pyval" where
  "py_getitem (PyDict kvs) k =
     (case map_of kvs k of
        None \<Rightarrow> Inl (OtherException ([0x27] @ k @ [0x27]))
      | Some v \<Rightarrow> Inr v)"
| "py_getitem (PyList xs) k =
     Inl (OtherException (ascii ''list indices must be integers or slices, not str''))"
| "py_getitem (PyStr s) k =
     Inl (OtherException (ascii ''string indices must be integers, not '' @ [0x27] @
                          ascii ''str'' @ [0x27]))"
| "py_getitem v k =
     Inl (OtherException ([0x27] @ type_name v @ [0x27] @ ascii '' object is not subscriptable''))"

fun starts_with :: "pystr \<Rightarrow> pystr \<Rightarrow> bool" where
  "starts_with s [] = True"
| "starts_with [] (p # ps) = False"
| "starts_with (c # cs) (p # ps) = (c = p \<and> starts_with cs ps)"

fun contains :: "pystr \<Rightarrow> pystr \<Rightarrow> bool" where
  "contains [] sub = (sub = [])"
| "contains (c # cs) sub = (starts_with (c # cs) sub \<or> contains cs sub)"

text \<open>
  \<open>k in v\<close> for a string \<open>k\<close>: a key of a dictionary, an item of a list, a substring of
  a string; the other values are no containers.
\<close>

fun py_in :: "pystr \<Rightarrow> pyval \<Rightarrow> exn + bool" where
  "py_in k (PyDict kvs) = Inr (k \<in> set (map fst kvs))"
| "py_in k (PyList xs) = Inr (PyStr k \<in> set xs)"
| "py_in k (PyStr s) = Inr (contains s k)"
| "py_in k v =
     Inl (OtherException (ascii ''argument of type '' @ [0x27] @ type_name v @ [0x27] @
                          ascii '' is not iterable''))"

text \<open>\<open>v.get(k, default)\<close>: only a dictionary has the method.\<close>

fun py_get :: "pyval \<Rightarrow> pystr \<Rightarrow> pyval \<Rightarrow> exn + pyval" where
  "py_get (PyDict kvs) k dflt = Inr (case map_of kvs k of None \<Rightarrow> dflt | Some v \<Rightarrow> v)"
| "py_get v k dflt =
     Inl (OtherException ([0x27] @ type_name v @ [0x27] @ ascii '' object has no attribute '' @
                          [0x27] @ ascii ''get'' @ [0x27]))"

section \<open>The fixed texts of the bot\<close>

text \<open>
  The string literals of the source, code point by code point: the Russian wording and
  the pictographs are outside ASCII and are written as numbers. \<open>header_line\<close> is the
  heading of the report, the \<open>label_\<close> texts open its eight lines, \<open>closing_line\<close> is the
  indentation before the closing quotes of the f-string.
\<close>

definition header_line :: pystr where
  "header_line =
     [0x1F4CD] @ ascii '' *'' @ [0x418, 0x43D, 0x444, 0x43E, 0x440, 0x43C, 0x430, 0x446,
     0x438, 0x44F] @ ascii '' '' @ [0x43E, 0x431] @ ascii '' IP-'' @ [0x430, 0x434, 0x440,
     0x435, 0x441, 0x435] @ ascii '':*''"

definition label_ip :: pystr where
  "label_ip =
     [0x2022] @ ascii '' '' @ [0x1F194] @ ascii '' *IP:* '' @ [0x60]"

definition label_country :: pystr where
  "label_country =
     [0x2022] @ ascii '' '' @ [0x1F3F3, 0xFE0F] @ ascii '' *'' @ [0x421, 0x442, 0x440, 0x430,
     0x43D, 0x430] @ ascii '':* ''"

definition label_region :: pystr where
  "label_region =
     [0x2022] @ ascii '' '' @ [0x1F4CD] @ ascii '' *'' @ [0x420, 0x435, 0x433, 0x438, 0x43E,
     0x43D] @ ascii '':* ''"

definition label_city :: pystr where
  "label_city =
     [0x2022] @ ascii '' '' @ [0x1F3D9, 0xFE0F] @ ascii '' *'' @ [0x413, 0x43E, 0x440, 0x43E,
     0x434] @ ascii '':* ''"

definition label_provider :: pystr where
  "label_provider =
     [0x2022] @ ascii '' '' @ [0x1F4E1] @ ascii '' *'' @ [0x41F, 0x440, 0x43E, 0x432, 0x430,
     0x439, 0x434, 0x435, 0x440] @ ascii '':* ''"

definition label_organization :: pystr where
  "label_organization =
     [0x2022] @ ascii '' '' @ [0x1F310] @ ascii '' *'' @ [0x41E, 0x440, 0x433, 0x430, 0x43D,
     0x438, 0x437, 0x430, 0x446, 0x438, 0x44F] @ ascii '':* ''"

definition label_coordinates :: pystr where
  "label_coordinates =
     [0x2022] @ ascii '' '' @ [0x1F4CD] @ ascii '' *'' @ [0x41A, 0x43E, 0x43E, 0x440, 0x434,
     0x438, 0x43D, 0x430, 0x442, 0x44B] @ ascii '':* ''"

definition label_timezone :: pystr where
  "label_timezone =
     [0x2022] @ ascii '' '' @ [0x1F550] @ ascii '' *'' @ [0x427, 0x430, 0x441, 0x43E, 0x432,
     0x43E, 0x439] @ ascii '' '' @ [0x43F, 0x43E, 0x44F, 0x441] @ ascii '':* ''"

definition closing_line :: pystr where
  "closing_line =
     ascii ''            ''"

definition remote_error_prefix :: pystr where
  "remote_error_prefix =
     [0x274C] @ ascii '' '' @ [0x41E, 0x448, 0x438, 0x431, 0x43A, 0x430] @ ascii '': ''
     @ [0x41D, 0x435] @ ascii '' '' @ [0x443, 0x434, 0x430, 0x43B, 0x43E, 0x441, 0x44C]
     @ ascii '' '' @ [0x43F, 0x43E, 0x43B, 0x443, 0x447, 0x438, 0x442, 0x44C] @ ascii '' ''
     @ [0x438, 0x43D, 0x444, 0x43E, 0x440, 0x43C, 0x430, 0x446, 0x438, 0x44E] @ ascii '' ''
     @ [0x43E, 0x431] @ ascii '' IP ''"

definition connection_message :: pystr where
  "connection_message =
     [0x274C] @ ascii '' '' @ [0x41E, 0x448, 0x438, 0x431, 0x43A, 0x430] @ ascii '' ''
     @ [0x441, 0x43E, 0x435, 0x434, 0x438, 0x43D, 0x435, 0x43D, 0x438, 0x44F] @ ascii ''. ''
     @ [0x41F, 0x43E, 0x436, 0x430, 0x43B, 0x443, 0x439, 0x441, 0x442, 0x430] @ ascii '', ''
     @ [0x43F, 0x440, 0x43E, 0x432, 0x435, 0x440, 0x44C, 0x442, 0x435] @ ascii '' ''
     @ [0x43F, 0x43E, 0x434, 0x43A, 0x43B, 0x44E, 0x447, 0x435, 0x43D, 0x438, 0x435]
     @ ascii '' '' @ [0x43A] @ ascii '' '' @ [0x438, 0x43D, 0x442, 0x435, 0x440, 0x43D,
     0x435, 0x442, 0x443] @ ascii ''.''"

definition timeout_message :: pystr where
  "timeout_message =
     [0x23F0] @ ascii '' '' @ [0x422, 0x430, 0x439, 0x43C, 0x430, 0x443, 0x442] @ ascii '' ''
     @ [0x437, 0x430, 0x43F, 0x440, 0x43E, 0x441, 0x430] @ ascii ''. '' @ [0x421, 0x435,
     0x440, 0x432, 0x435, 0x440] @ ascii '' '' @ [0x43D, 0x435] @ ascii '' '' @ [0x43E,
     0x442, 0x432, 0x435, 0x442, 0x438, 0x43B] @ ascii '' '' @ [0x432, 0x43E, 0x432, 0x440,
     0x435, 0x43C, 0x44F] @ ascii ''.''"

definition unknown_error_prefix :: pystr where
  "unknown_error_prefix =
     [0x26A0, 0xFE0F] @ ascii '' '' @ [0x41F, 0x440, 0x43E, 0x438, 0x437, 0x43E, 0x448,
     0x43B, 0x430] @ ascii '' '' @ [0x43E, 0x448, 0x438, 0x431, 0x43A, 0x430] @ ascii '': ''"

definition fetching_text :: pystr where
  "fetching_text =
     [0x1F504] @ ascii '' '' @ [0x41F, 0x43E, 0x43B, 0x443, 0x447, 0x430, 0x44E]
     @ ascii '' '' @ [0x438, 0x43D, 0x444, 0x43E, 0x440, 0x43C, 0x430, 0x446, 0x438, 0x44E]
     @ ascii ''...''"

definition detecting_text :: pystr where
  "detecting_text =
     [0x1F50D] @ ascii '' '' @ [0x41E, 0x43F, 0x440, 0x435, 0x434, 0x435, 0x43B, 0x44F,
     0x44E] @ ascii '' '' @ [0x432, 0x430, 0x448] @ ascii '' IP-'' @ [0x430, 0x434, 0x440,
     0x435, 0x441] @ ascii ''...''"

definition guidance_text :: pystr where
  "guidance_text =
     [0x1F914] @ ascii '' '' @ [0x42D, 0x442, 0x43E] @ ascii '' '' @ [0x43D, 0x435]
     @ ascii '' '' @ [0x43F, 0x43E, 0x445, 0x43E, 0x436, 0x435] @ ascii '' '' @ [0x43D,
     0x430] @ ascii '' IP-'' @ [0x430, 0x434, 0x440, 0x435, 0x441] @ ascii ''.'' @ [0xA, 0xA,
     0x1F4CC] @ ascii '' '' @ [0x41E, 0x442, 0x43F, 0x440, 0x430, 0x432, 0x44C, 0x442, 0x435]
     @ ascii '' IP-'' @ [0x430, 0x434, 0x440, 0x435, 0x441] @ ascii '' '' @ [0x432]
     @ ascii '' '' @ [0x444, 0x43E, 0x440, 0x43C, 0x430, 0x442, 0x435] @ ascii '': ''
     @ [0x60] @ ascii ''8.8.8.8'' @ [0x60, 0xA, 0x1F4CC] @ ascii '' '' @ [0x418, 0x43B,
     0x438] @ ascii '' '' @ [0x438, 0x441, 0x43F, 0x43E, 0x43B, 0x44C, 0x437, 0x443, 0x439,
     0x442, 0x435] @ ascii '' '' @ [0x43A, 0x43E, 0x43C, 0x430, 0x43D, 0x434, 0x443]
     @ ascii '': '' @ [0x60] @ ascii ''/ip 8.8.8.8'' @ [0x60]"

definition not_available :: pystr where
  "not_available = ascii ''N/A''"

definition ipify_url :: pystr where
  "ipify_url = ascii ''https://api.ipify.org?format=json''"

text \<open>\<^verbatim>\<open>f'https://ipapi.co/{ip_address}/json/'\<close>\<close>

definition ipapi_url :: "pystr \<Rightarrow> pystr" where
  "ipapi_url ip_address = ascii ''https://ipapi.co/'' @ ip_address @ ascii ''/json/''"

definition markdown :: pystr where
  "markdown = ascii ''Markdown''"

section \<open>The report\<close>

text \<open>
  The f-string of \<open>get_ip_info\<close>, line by line: it opens with a line break, so its
  first line is empty, and the value of \<open>org\<close> is read for two lines.
\<close>

definition info_lines ::
  "pystr \<Rightarrow> pystr \<Rightarrow> pystr \<Rightarrow> pystr \<Rightarrow> pystr \<Rightarrow> pystr \<Rightarrow> pystr \<Rightarrow> pystr \<Rightarrow> pystr \<Rightarrow> pystr list" where
  "info_lines ip country region city provider organization latitude longitude timezone =
     [[],
      header_line,
      [],
      label_ip @ ip @ [0x60],
      label_country @ country,
      label_region @ region,
      label_city @ city,
      label_provider @ provider,
      label_organization @ organization,
      label_coordinates @ latitude @ ascii '', '' @ longitude,
      label_timezone @ timezone,
      closing_line]"

fun join_lines :: "pystr list \<Rightarrow> pystr" where
  "join_lines [] = []"
| "join_lines [l] = l"
| "join_lines (l # ls) = l @ [0x0A] @ join_lines ls"

text \<open>\<^verbatim>\<open>{data.get(key, 'N/A')}\<close>\<close>

definition field :: "env \<Rightarrow> pyval \<Rightarrow> pystr \<Rightarrow> exn + pystr" where
  "field w data key =
     and_then (py_get data key (PyStr not_available)) (\<lambda>v. Inr (py_str w v))"

definition format_info :: "env \<Rightarrow> pyval \<Rightarrow> exn + pystr" where
  "format_info w data =
     and_then (field w data (ascii ''ip'')) (\<lambda>ip.
     and_then (field w data (ascii ''country_name'')) (\<lambda>country.
     and_then (field w data (ascii ''region'')) (\<lambda>region.
     and_then (field w data (ascii ''city'')) (\<lambda>city.
     and_then (field w data (ascii ''org'')) (\<lambda>provider.
     and_then (field w data (ascii ''org'')) (\<lambda>organization.
     and_then (field w data (ascii ''latitude'')) (\<lambda>latitude.
     and_then (field w data (ascii ''longitude'')) (\<lambda>longitude.
     and_then (field w data (ascii ''timezone'')) (\<lambda>timezone.
       Inr (join_lines (info_lines ip country region city provider organization
                          latitude longitude timezone)))))))))))"

section \<open>The lookup\<close>

text \<open>
  The side effect of a lookup is its outbound calls; the log is the list of the URLs
  requested so far, in order.
\<close>

definition requests_get :: "env \<Rightarrow> pystr \<Rightarrow> pystr list \<Rightarrow> (exn + response) \<times> pystr list" where
  "requests_get w url log = (http_get w url, log @ [url])"

text \<open>
  \<^verbatim>\<open>
  if not ip_address or ip_address == '':
      response = requests.get('https://api.ipify.org?format=json', timeout=10)
      ip_address = response.json()['ip']
  \<close>
  The argument is a string, empty or not; the address found is whatever value the
  service's payload holds under \<open>ip\<close>.
\<close>

definition working_address :: "env \<Rightarrow> pystr \<Rightarrow> pystr list \<Rightarrow> (exn + pyval) \<times> pystr list" where
  "working_address w ip_address log =
     (if ip_address = [] then
        (case requests_get w ipify_url log of
           (Inl e, log') \<Rightarrow> (Inl e, log')
         | (Inr response, log') \<Rightarrow>
             (and_then (json response) (\<lambda>d. py_getitem d (ascii ''ip'')), log'))
      else (Inr (PyStr ip_address), log))"

text \<open>
  \<^verbatim>\<open>
  response = requests.get(f'https://ipapi.co/{ip_address}/json/', timeout=10)
  data = response.json()
  if 'error' not in data:
      info = f"""..."""
      return info
  else:
      return f"... {ip_address}"
  \<close>
  The body of the \<open>try\<close>: its result is the text returned or the exception raised.
\<close>

definition lookup_body :: "env \<Rightarrow> pystr \<Rightarrow> (exn + pystr) \<times> pystr list" where
  "lookup_body w ip_address =
     (case working_address w ip_address [] of
        (Inl e, log) \<Rightarrow> (Inl e, log)
      | (Inr address, log) \<Rightarrow>
          (case requests_get w (ipapi_url (py_str w address)) log of
             (Inl e, log') \<Rightarrow> (Inl e, log')
           | (Inr response, log') \<Rightarrow>
               (and_then (json response) (\<lambda>data.
                and_then (py_in (ascii ''error'') data) (\<lambda>has_error.
                  if \<not> has_error then format_info w data
                  else Inr (remote_error_prefix @ py_str w address))),
                log')))"

text \<open>
  The three \<open>except\<close> clauses, tried in the order of the source:
  \<^verbatim>\<open>
  except requests.exceptions.ConnectionError: return "..."
  except requests.exceptions.Timeout: return "..."
  except Exception as e: return f"... {str(e)}"
  \<close>
  The last clause also writes the exception to the log of the process, which is left out.
\<close>

definition handle_exception :: "exn \<Rightarrow> pystr" where
  "handle_exception e =
     (if isinstance_ConnectionError e then connection_message
      else if isinstance_Timeout e then timeout_message
      else unknown_error_prefix @ exc_str e)"

definition get_ip_info :: "env \<Rightarrow> pystr \<Rightarrow> pystr \<times> pystr list" where
  "get_ip_info w ip_address =
     (case lookup_body w ip_address of
        (Inr text, log) \<Rightarrow> (text, log)
      | (Inl e, log) \<Rightarrow> (handle_exception e, log))"

section \<open>The handlers\<close>

text \<open>
  A handler sends replies, each a text with its \<open>parse_mode\<close>, and may look an address
  up: its outcome is the list of replies in the order sent and the log of the outbound
  calls.
\<close>

type_synonym reply = "pystr \<times> pystr option"

text \<open>\<open>ip_command\<close>, given \<open>context.args\<close>, the words after \<open>/ip\<close>.\<close>

definition ip_command :: "env \<Rightarrow> pystr list \<Rightarrow> reply list \<times> pystr list" where
  "ip_command w args =
     (case args of
        ip_address # _ \<Rightarrow>
          (case get_ip_info w ip_address of
             (result, log) \<Rightarrow> ([(fetching_text, None), (result, Some markdown)], log))
      | [] \<Rightarrow>
          (case get_ip_info w [] of
             (result, log) \<Rightarrow> ([(detecting_text, None), (result, Some markdown)], log)))"

text \<open>
  \<open>handle_message\<close>, given \<open>update.message.text\<close>: the text is stripped before the
  validator sees it. The outcome is \<open>None\<close> where the validator would raise.
\<close>

definition handle_message :: "env \<Rightarrow> pystr \<Rightarrow> (reply list \<times> pystr list) option" where
  "handle_message w text =
     (let user_message = py_strip text in
      case is_valid_ip user_message of
        None \<Rightarrow> None
      | Some True \<Rightarrow>
          (case get_ip_info w user_message of
             (result, log) \<Rightarrow> Some ([(fetching_text, None), (result, Some markdown)], log))
      | Some False \<Rightarrow> Some ([(guidance_text, Some markdown)], []))"

section \<open>Worlds and payloads to run the program in\<close>

text \<open>
  A world given by a table of URLs: a request for a URL of the table gets the entry, any
  other request finds no connection. Lists and dictionaries print as the empty text in it.
\<close>

definition serving :: "(pystr \<times> (exn + response)) list \<Rightarrow> env" where
  "serving table =
     \<lparr>http_get = (\<lambda>url. case map_of table url of
                           Some r \<Rightarrow> r
                         | None \<Rightarrow> Inl (ConnectionError (ascii ''no route to host''))),
      repr_of = (\<lambda>v. [])\<rparr>"

definition replies_with :: "pyval \<Rightarrow> exn + response" where
  "replies_with data = Inr (Response (Inr data))"

text \<open>The payload of the specification's end-to-end example.\<close>

definition google_payload :: pyval where
  "google_payload =
     PyDict [(ascii ''ip'', PyStr (ascii ''8.8.8.8'')),
             (ascii ''country_name'', PyStr (ascii ''United States'')),
             (ascii ''city'', PyStr (ascii ''Mountain View'')),
             (ascii ''org'', PyStr (ascii ''Google LLC'')),
             (ascii ''latitude'', PyFloat (ascii ''37.4'')),
             (ascii ''longitude'', PyFloat (ascii ''-122.1'')),
             (ascii ''timezone'', PyStr (ascii ''America/Los_Angeles''))]"

definition google_world :: env where
  "google_world = serving [(ipapi_url (ascii ''8.8.8.8''), replies_with google_payload)]"

text \<open>The number of places at which a text occurs in another.\<close>

fun occurrences :: "pystr \<Rightarrow> pystr \<Rightarrow> nat" where
  "occurrences [] sub = (if sub = [] then 1 else 0)"
| "occurrences (c # cs) sub = (if starts_with (c # cs) sub then 1 else 0) + occurrences cs sub"

section \<open>Notions the properties are stated with\<close>

text \<open>
  An octet group is a run of one to three decimal digits; its value is the number the
  digits write in base ten; \<open>dotted\<close> writes groups with dots between them. A group has
  a leading zero if a digit of value zero opens it and another code point follows.
\<close>

definition octet_group :: "pystr \<Rightarrow> bool" where
  "octet_group g = (1 \<le> length g \<and> length g \<le> 3 \<and> list_all is_decimal g)"

definition digit_value :: "nat \<Rightarrow> nat" where
  "digit_value c = (case decimal c of Some d \<Rightarrow> d | None \<Rightarrow> 0)"

definition group_value :: "pystr \<Rightarrow> nat" where
  "group_value g = foldl (\<lambda>acc c. 10 * acc + digit_value c) 0 g"

fun dotted :: "pystr list \<Rightarrow> pystr" where
  "dotted [] = []"
| "dotted [g] = g"
| "dotted (g # gs) = g @ [0x2E] @ dotted gs"

definition leading_zero :: "pystr \<Rightarrow> bool" where
  "leading_zero g = (case g of c # _ # _ \<Rightarrow> decimal c = Some 0 | _ \<Rightarrow> False)"


definition slot :: "env \<Rightarrow> (pystr \<times> pyval) list \<Rightarrow> pystr \<Rightarrow> pystr" where
  "slot w kvs key = (case map_of kvs key of None \<Rightarrow> not_available | Some v \<Rightarrow> py_str w v)"

definition report_lines :: "env \<Rightarrow> (pystr \<times> pyval) list \<Rightarrow> pystr list" where
  "report_lines w kvs =
     info_lines (slot w kvs (ascii ''ip'')) (slot w kvs (ascii ''country_name''))
       (slot w kvs (ascii ''region'')) (slot w kvs (ascii ''city''))
       (slot w kvs (ascii ''org'')) (slot w kvs (ascii ''org''))
       (slot w kvs (ascii ''latitude'')) (slot w kvs (ascii ''longitude''))
       (slot w kvs (ascii ''timezone''))"

text \<open>The report the example payload gives: it has no \<open>region\<close>.\<close>

definition google_report_lines :: "pystr list" where
  "google_report_lines =
     info_lines (ascii ''8.8.8.8'') (ascii ''United States'') not_available
       (ascii ''Mountain View'') (ascii ''Google LLC'') (ascii ''Google LLC'')
       (ascii ''37.4'') (ascii ''-122.1'') (ascii ''America/Los_Angeles'')"

definition google_report :: pystr where
  "google_report = join_lines google_report_lines"



text \<open>A payload that reports an error, and the payload of the discovery service.\<close>

definition error_payload :: pyval where
  "error_payload =
     PyDict [(ascii ''ip'', PyStr (ascii ''10.0.0.1'')), (ascii ''error'', PyBool True),
             (ascii ''reason'', PyStr (ascii ''Reserved IP Address''))]"

definition ipify_payload :: pyval where
  "ipify_payload = PyDict [(ascii ''ip'', PyStr (ascii ''10.0.0.1''))]"

definition error_world :: env where
  "error_world =
     serving [(ipify_url, replies_with ipify_payload),
              (ipapi_url (ascii ''10.0.0.1''), replies_with error_payload)]"

text \<open>The text each class of exception is answered with.\<close>

fun message_for :: "exn \<Rightarrow> pystr" where
  "message_for (ConnectionError m) = connection_message"
| "message_for (ConnectTimeout m) = connection_message"
| "message_for (Timeout m) = timeout_message"
| "message_for (OtherException m) = unknown_error_prefix @ m"

section \<open>Evaluation\<close>

lemmas validator_eval = is_valid_ip_def re_match_def ipv4_pattern_def ascii_def is_decimal_def
  decimal_def unicode_zeros_def numeral_3_eq_3 py_split_def py_int_def py_strip_def
  strip_with_def is_space_def int_space_def int_literal_def

lemmas text_defs = header_line_def label_ip_def label_country_def label_region_def
  label_city_def label_provider_def label_organization_def label_coordinates_def
  label_timezone_def closing_line_def remote_error_prefix_def connection_message_def
  timeout_message_def unknown_error_prefix_def fetching_text_def detecting_text_def
  guidance_text_def not_available_def ipify_url_def ipapi_url_def markdown_def

section \<open>Substrings\<close>





section \<open>The report of a dictionary payload\<close>

lemma field_dict: "field w (PyDict kvs) key = Inr (slot w kvs key)"
  by (simp add: field_def slot_def and_then_def split: option.splits)

lemma format_info_dict: "format_info w (PyDict kvs) = Inr (join_lines (report_lines w kvs))"
  by (simp add: format_info_def field_dict and_then_def report_lines_def)

lemma format_info_not_dict:
  "\<forall>kvs. data \<noteq> PyDict kvs \<Longrightarrow> \<exists>m. format_info w data = Inl (OtherException m)"
  by (cases data) (simp_all add: format_info_def field_def and_then_def)

lemma ipify_not_ipapi: "ipify_url \<noteq> ipapi_url a"
  by (simp add: ipify_url_def ipapi_url_def ascii_def)

section \<open>The validator on every text\<close>

subsection \<open>Decimal digits\<close>

lemma is_decimal_range: "is_decimal c \<longleftrightarrow> (\<exists>z \<in> set unicode_zeros. z \<le> c \<and> c < z + 10)"
  by (auto simp add: is_decimal_def decimal_def find_None_iff)

lemma decimal_bounds: "is_decimal c \<Longrightarrow> 0x30 \<le> c \<and> (c < 0x1C5A \<or> 0xA620 \<le> c)"
  by (auto simp add: is_decimal_range unicode_zeros_def)

lemma not_decimal_points:
  "\<not> is_decimal 0x5F" "\<not> is_decimal 0x85" "\<not> is_decimal 0xA0" "\<not> is_decimal 0x1680"
  by (simp_all add: is_decimal_def decimal_def unicode_zeros_def)

lemma decimal_not_space: "is_decimal c \<Longrightarrow> \<not> is_space c"
  using decimal_bounds [of c] not_decimal_points
  by (auto simp add: is_space_def)

lemma decimal_not_special:
  assumes "is_decimal c"
  shows "c \<noteq> 0x2E" "c \<noteq> 0x0A" "c \<noteq> 0x2D" "c \<noteq> 0x2B" "c \<noteq> 0x5F"
  using decimal_bounds [OF assms] assms not_decimal_points by auto

subsection \<open>\<open>int\<close> and \<open>split\<close> on digit groups\<close>

lemma int_digits_group:
  "list_all is_decimal g \<Longrightarrow>
   int_digits acc g = Some (foldl (\<lambda>acc c. 10 * acc + digit_value c) acc g)"
proof (induction g arbitrary: acc)
  case Nil
  then show ?case by simp
next
  case (Cons c g)
  then obtain d where "decimal c = Some d" by (auto simp add: is_decimal_def)
  then show ?case using Cons by (simp add: digit_value_def)
qed

lemma strip_with_group:
  assumes "g \<noteq> []" and "list_all is_decimal g" and "\<And>c. is_decimal c \<Longrightarrow> \<not> space c"
  shows "strip_with space g = g" and "space 0x0A \<Longrightarrow> strip_with space (g @ [0x0A]) = g"
proof -
  have h: "\<not> space (hd g)" using assms by (cases g) auto
  have "last g \<in> set g" using assms(1) by simp
  then have l: "\<not> space (last g)"
    using assms(2,3) by (auto simp add: list_all_iff)
  have front: "dropWhile space g = g" using h by (simp add: dropWhile_eq_self_iff)
  have rear: "dropWhile space (rev g) = rev g"
    using l assms(1) by (simp add: dropWhile_eq_self_iff hd_rev)
  show "strip_with space g = g" by (simp add: strip_with_def front rear)
  have "dropWhile space (g @ [0x0A]) = g @ [0x0A]"
    using h assms(1) by (simp add: dropWhile_eq_self_iff)
  then show "strip_with space (g @ [0x0A]) = g" if "space 0x0A"
    using that by (simp add: strip_with_def rear)
qed

lemma int_strip_group:
  assumes "g \<noteq> []" and "list_all is_decimal g"
  shows "strip_with int_space g = g" and "strip_with int_space (g @ [0x0A]) = g"
proof -
  have no: "\<not> int_space c" if "is_decimal c" for c
    using decimal_not_space [OF that] by (simp add: int_space_def)
  have nl: "int_space 0x0A" by (simp add: int_space_def is_space_def)
  show "strip_with int_space g = g"
    using strip_with_group(1) [OF assms, of int_space] no by blast
  show "strip_with int_space (g @ [0x0A]) = g"
    using strip_with_group(2) [OF assms, of int_space] no nl by blast
qed

lemma py_int_group:
  assumes "g \<noteq> []" and "list_all is_decimal g"
  shows "py_int g = Some (int (group_value g))"
    and "py_int (g @ [0x0A]) = Some (int (group_value g))"
proof -
  obtain c cs where g: "g = c # cs" using assms(1) by (cases g) auto
  then have c: "is_decimal c" using assms(2) by simp
  have lit: "int_literal g = Some (group_value g)"
    using c g int_digits_group [OF assms(2), of 0] by (simp add: int_literal_def group_value_def)
  have "c \<noteq> 0x2D" "c \<noteq> 0x2B" using decimal_not_special [OF c] by auto
  then have "(case g of [] \<Rightarrow> None
      | c # cs \<Rightarrow> if c = 0x2D then map_option (\<lambda>n. - int n) (int_literal cs)
          else if c = 0x2B then map_option int (int_literal cs)
          else map_option int (int_literal (c # cs))) = Some (int (group_value g))"
    using lit g by simp
  then show "py_int g = Some (int (group_value g))"
    and "py_int (g @ [0x0A]) = Some (int (group_value g))"
    by (simp_all add: py_int_def int_strip_group [OF assms])
qed

lemma split_from_last: "sep \<notin> set g \<Longrightarrow> split_from sep piece g = [rev piece @ g]"
  by (induction g arbitrary: piece) auto

lemma split_from_group:
  "sep \<notin> set g \<Longrightarrow> split_from sep piece (g @ sep # rest) = (rev piece @ g) # split_from sep [] rest"
  by (induction g arbitrary: piece) auto

lemma split_four:
  assumes "sep \<notin> set g1" "sep \<notin> set g2" "sep \<notin> set g3" "sep \<notin> set g4"
  shows "py_split (g1 @ sep # g2 @ sep # g3 @ sep # g4) sep = [g1, g2, g3, g4]"
  using assms by (simp add: py_split_def split_from_group split_from_last)

subsection \<open>What the pattern matches\<close>

text \<open>
  The end states of each part of the pattern, from the digit up to the whole: a group of
  one to three digits, a group and its dot, three of these, and then a last group before
  the end of the text or before its final line break.
\<close>

lemma ends_Digit:
  "(j, r') \<in> set (match_ends Digit (i, r)) \<longleftrightarrow> (\<exists>c. is_decimal c \<and> r = c # r' \<and> j = Suc i)"
  by (cases r) auto

lemma ends_Lit:
  "(j, r') \<in> set (match_ends (Lit a) (i, r)) \<longleftrightarrow> (r = a # r' \<and> j = Suc i)"
  by (cases r) auto

lemma ends_Seq:
  "x \<in> set (match_ends (Seq p q) st) \<longleftrightarrow> (\<exists>y \<in> set (match_ends p st). x \<in> set (match_ends q y))"
  by simp

lemma ends_Repeat_0: "x \<in> set (match_ends (Repeat lo 0 p) st) \<longleftrightarrow> (lo = 0 \<and> x = st)"
  by auto

lemma ends_Repeat_Suc:
  "x \<in> set (match_ends (Repeat lo (Suc hi) p) st) \<longleftrightarrow>
     (lo = 0 \<and> x = st) \<or>
     (\<exists>y \<in> set (match_ends p st). x \<in> set (match_ends (Repeat (lo - 1) hi p) y))"
  by auto

lemma octet_group_cases:
  "octet_group g \<longleftrightarrow>
     (\<exists>a. g = [a] \<and> is_decimal a) \<or>
     (\<exists>a b. g = [a, b] \<and> is_decimal a \<and> is_decimal b) \<or>
     (\<exists>a b c. g = [a, b, c] \<and> is_decimal a \<and> is_decimal b \<and> is_decimal c)"
proof
  assume g: "octet_group g"
  then have len: "length g = 1 \<or> length g = 2 \<or> length g = 3"
    by (auto simp add: octet_group_def)
  have d: "list_all is_decimal g" using g by (simp add: octet_group_def)
  from len show "(\<exists>a. g = [a] \<and> is_decimal a) \<or>
     (\<exists>a b. g = [a, b] \<and> is_decimal a \<and> is_decimal b) \<or>
     (\<exists>a b c. g = [a, b, c] \<and> is_decimal a \<and> is_decimal b \<and> is_decimal c)"
    using d by (auto simp add: length_Suc_conv numeral_2_eq_2 numeral_3_eq_3)
next
  assume "(\<exists>a. g = [a] \<and> is_decimal a) \<or>
     (\<exists>a b. g = [a, b] \<and> is_decimal a \<and> is_decimal b) \<or>
     (\<exists>a b c. g = [a, b, c] \<and> is_decimal a \<and> is_decimal b \<and> is_decimal c)"
  then show "octet_group g" by (auto simp add: octet_group_def)
qed

lemma bex_Digit:
  "(\<exists>y \<in> set (match_ends Digit (i, r)). P y) \<longleftrightarrow>
     (\<exists>c cs. is_decimal c \<and> r = c # cs \<and> P (Suc i, cs))"
  by (cases r) auto

lemma ends_upto_1:
  "x \<in> set (match_ends (Repeat 0 (Suc 0) Digit) (i, r)) \<longleftrightarrow>
     x = (i, r) \<or> (\<exists>a cs. is_decimal a \<and> r = a # cs \<and> x = (Suc i, cs))"
  unfolding ends_Repeat_Suc bex_Digit by (simp add: ends_Repeat_0)

lemma ends_upto_2:
  "x \<in> set (match_ends (Repeat 0 (Suc (Suc 0)) Digit) (i, r)) \<longleftrightarrow>
     x = (i, r) \<or> (\<exists>a cs. is_decimal a \<and> r = a # cs \<and> x = (Suc i, cs)) \<or>
     (\<exists>a b cs. is_decimal a \<and> is_decimal b \<and> r = a # b # cs \<and> x = (Suc (Suc i), cs))"
  unfolding ends_Repeat_Suc bex_Digit by (simp add: ends_upto_1) blast

lemma ends_octet_Suc:
  "(j, r') \<in> set (match_ends (Repeat (Suc 0) (Suc (Suc (Suc 0))) Digit) (i, r)) \<longleftrightarrow>
     (\<exists>a. is_decimal a \<and> r = a # r' \<and> j = Suc i) \<or>
     (\<exists>a b. is_decimal a \<and> is_decimal b \<and> r = a # b # r' \<and> j = Suc (Suc i)) \<or>
     (\<exists>a b c. is_decimal a \<and> is_decimal b \<and> is_decimal c \<and> r = a # b # c # r' \<and>
        j = Suc (Suc (Suc i)))"
  unfolding ends_Repeat_Suc bex_Digit by (simp add: ends_upto_2) blast

lemma ends_octet:
  "(j, r') \<in> set (match_ends (Repeat 1 3 Digit) (i, r)) \<longleftrightarrow>
     (\<exists>g. octet_group g \<and> r = g @ r' \<and> j = i + length g)"
proof -
  have "(\<exists>g. octet_group g \<and> r = g @ r' \<and> j = i + length g) \<longleftrightarrow>
     (\<exists>a. is_decimal a \<and> r = a # r' \<and> j = Suc i) \<or>
     (\<exists>a b. is_decimal a \<and> is_decimal b \<and> r = a # b # r' \<and> j = Suc (Suc i)) \<or>
     (\<exists>a b c. is_decimal a \<and> is_decimal b \<and> is_decimal c \<and> r = a # b # c # r' \<and>
        j = Suc (Suc (Suc i)))"
    unfolding octet_group_cases by auto
  then show ?thesis
    using ends_octet_Suc [of j r' i r] by (simp add: numeral_3_eq_3)
qed

lemma bex_octet_dot:
  "(\<exists>y \<in> set (match_ends (Seq (Repeat 1 3 Digit) (Lit 0x2E)) (i, r)). Q y) \<longleftrightarrow>
     (\<exists>g rest. octet_group g \<and> r = g @ 0x2E # rest \<and> Q (Suc (i + length g), rest))"
proof
  assume "\<exists>y \<in> set (match_ends (Seq (Repeat 1 3 Digit) (Lit 0x2E)) (i, r)). Q y"
  then obtain j rest where in_ends: "(j, rest) \<in> set (match_ends (Seq (Repeat 1 3 Digit) (Lit 0x2E)) (i, r))"
    and q: "Q (j, rest)" by auto
  from in_ends obtain k mid where "(k, mid) \<in> set (match_ends (Repeat 1 3 Digit) (i, r))"
    and "(j, rest) \<in> set (match_ends (Lit 0x2E) (k, mid))"
    unfolding ends_Seq by auto
  then obtain g where "octet_group g" "r = g @ mid" "k = i + length g" "mid = 0x2E # rest" "j = Suc k"
    unfolding ends_octet ends_Lit by auto
  then show "\<exists>g rest. octet_group g \<and> r = g @ 0x2E # rest \<and> Q (Suc (i + length g), rest)"
    using q by auto
next
  assume "\<exists>g rest. octet_group g \<and> r = g @ 0x2E # rest \<and> Q (Suc (i + length g), rest)"
  then obtain g rest where g: "octet_group g" "r = g @ 0x2E # rest" and q: "Q (Suc (i + length g), rest)"
    by auto
  have "(i + length g, 0x2E # rest) \<in> set (match_ends (Repeat 1 3 Digit) (i, r))"
    unfolding ends_octet using g by auto
  moreover have "(Suc (i + length g), rest) \<in> set (match_ends (Lit 0x2E) (i + length g, 0x2E # rest))"
    unfolding ends_Lit by simp
  ultimately have "(Suc (i + length g), rest) \<in> set (match_ends (Seq (Repeat 1 3 Digit) (Lit 0x2E)) (i, r))"
    unfolding ends_Seq by blast
  then show "\<exists>y \<in> set (match_ends (Seq (Repeat 1 3 Digit) (Lit 0x2E)) (i, r)). Q y"
    using q by blast
qed

lemma bex_three_groups:
  "(\<exists>y \<in> set (match_ends (Repeat 3 3 (Seq (Repeat 1 3 Digit) (Lit 0x2E))) (i, r)). Q y) \<longleftrightarrow>
     (\<exists>g1 g2 g3 rest. octet_group g1 \<and> octet_group g2 \<and> octet_group g3 \<and>
        r = g1 @ 0x2E # g2 @ 0x2E # g3 @ 0x2E # rest \<and>
        Q (Suc (Suc (Suc (i + length g1) + length g2) + length g3), rest))"
proof -
  let ?P = "Seq (Repeat 1 3 Digit) (Lit 0x2E)"
  have zero: "(\<exists>y \<in> set (match_ends (Repeat 0 0 ?P) st). R y) \<longleftrightarrow> R st" for st R
    by simp
  have one: "(\<exists>y \<in> set (match_ends (Repeat (Suc 0) (Suc 0) ?P) (k, u)). R y) \<longleftrightarrow>
      (\<exists>g rest. octet_group g \<and> u = g @ 0x2E # rest \<and> R (Suc (k + length g), rest))" for k u R
  proof -
    have "(\<exists>y \<in> set (match_ends (Repeat (Suc 0) (Suc 0) ?P) (k, u)). R y) \<longleftrightarrow>
        (\<exists>z \<in> set (match_ends ?P (k, u)). \<exists>y \<in> set (match_ends (Repeat 0 0 ?P) z). R y)"
      by auto
    then show ?thesis unfolding zero bex_octet_dot .
  qed
  have two: "(\<exists>y \<in> set (match_ends (Repeat (Suc (Suc 0)) (Suc (Suc 0)) ?P) (k, u)). R y) \<longleftrightarrow>
      (\<exists>g rest. octet_group g \<and> u = g @ 0x2E # rest \<and>
         (\<exists>g' rest'. octet_group g' \<and> rest = g' @ 0x2E # rest' \<and>
            R (Suc (Suc (k + length g) + length g'), rest')))" for k u R
  proof -
    have "(\<exists>y \<in> set (match_ends (Repeat (Suc (Suc 0)) (Suc (Suc 0)) ?P) (k, u)). R y) \<longleftrightarrow>
        (\<exists>z \<in> set (match_ends ?P (k, u)).
           \<exists>y \<in> set (match_ends (Repeat (Suc 0) (Suc 0) ?P) z). R y)"
      by auto
    also have "\<dots> \<longleftrightarrow> (\<exists>g rest. octet_group g \<and> u = g @ 0x2E # rest \<and>
        (\<exists>y \<in> set (match_ends (Repeat (Suc 0) (Suc 0) ?P) (Suc (k + length g), rest)). R y))"
      by (rule bex_octet_dot)
    finally show ?thesis unfolding one .
  qed
  have "(\<exists>y \<in> set (match_ends (Repeat (Suc (Suc (Suc 0))) (Suc (Suc (Suc 0))) ?P) (i, r)). Q y) \<longleftrightarrow>
      (\<exists>z \<in> set (match_ends ?P (i, r)).
         \<exists>y \<in> set (match_ends (Repeat (Suc (Suc 0)) (Suc (Suc 0)) ?P) z). Q y)"
    by auto
  also have "\<dots> \<longleftrightarrow> (\<exists>g rest. octet_group g \<and> r = g @ 0x2E # rest \<and>
      (\<exists>y \<in> set (match_ends (Repeat (Suc (Suc 0)) (Suc (Suc 0)) ?P) (Suc (i + length g), rest)). Q y))"
    by (rule bex_octet_dot)
  finally have unfolded:
    "(\<exists>y \<in> set (match_ends (Repeat (Suc (Suc (Suc 0))) (Suc (Suc (Suc 0))) ?P) (i, r)). Q y) \<longleftrightarrow>
      (\<exists>g rest. octet_group g \<and> r = g @ 0x2E # rest \<and>
         (\<exists>g' rest'. octet_group g' \<and> rest = g' @ 0x2E # rest' \<and>
            (\<exists>g'' rest''. octet_group g'' \<and> rest' = g'' @ 0x2E # rest'' \<and>
               Q (Suc (Suc (Suc (i + length g) + length g') + length g''), rest''))))"
    unfolding two .
  have three: "Repeat 3 3 ?P = Repeat (Suc (Suc (Suc 0))) (Suc (Suc (Suc 0))) ?P"
    by (simp only: numeral_3_eq_3)
  have nested:
    "(\<exists>y \<in> set (match_ends (Repeat 3 3 ?P) (i, r)). Q y) \<longleftrightarrow>
      (\<exists>g rest. octet_group g \<and> r = g @ 0x2E # rest \<and>
         (\<exists>g' rest'. octet_group g' \<and> rest = g' @ 0x2E # rest' \<and>
            (\<exists>g'' rest''. octet_group g'' \<and> rest' = g'' @ 0x2E # rest'' \<and>
               Q (Suc (Suc (Suc (i + length g) + length g') + length g''), rest''))))"
    unfolding three by (rule unfolded)
  show ?thesis
  proof
    assume "\<exists>y \<in> set (match_ends (Repeat 3 3 ?P) (i, r)). Q y"
    then obtain g rest g' rest' g'' rest'' where
      "octet_group g" "r = g @ 0x2E # rest" "octet_group g'" "rest = g' @ 0x2E # rest'"
      "octet_group g''" "rest' = g'' @ 0x2E # rest''"
      "Q (Suc (Suc (Suc (i + length g) + length g') + length g''), rest'')"
      unfolding nested by blast
    then have "octet_group g \<and> octet_group g' \<and> octet_group g'' \<and>
        r = g @ 0x2E # g' @ 0x2E # g'' @ 0x2E # rest'' \<and>
        Q (Suc (Suc (Suc (i + length g) + length g') + length g''), rest'')"
      by simp
    then show "\<exists>g1 g2 g3 rest. octet_group g1 \<and> octet_group g2 \<and> octet_group g3 \<and>
        r = g1 @ 0x2E # g2 @ 0x2E # g3 @ 0x2E # rest \<and>
        Q (Suc (Suc (Suc (i + length g1) + length g2) + length g3), rest)"
      by blast
  next
    assume "\<exists>g1 g2 g3 rest. octet_group g1 \<and> octet_group g2 \<and> octet_group g3 \<and>
        r = g1 @ 0x2E # g2 @ 0x2E # g3 @ 0x2E # rest \<and>
        Q (Suc (Suc (Suc (i + length g1) + length g2) + length g3), rest)"
    then obtain g1 g2 g3 rest where g: "octet_group g1" "octet_group g2" "octet_group g3"
      "r = g1 @ 0x2E # g2 @ 0x2E # g3 @ 0x2E # rest"
      "Q (Suc (Suc (Suc (i + length g1) + length g2) + length g3), rest)"
      by blast
    have "octet_group g3 \<and> g3 @ 0x2E # rest = g3 @ 0x2E # rest \<and>
        Q (Suc (Suc (Suc (i + length g1) + length g2) + length g3), rest)"
      using g by simp
    then have "octet_group g2 \<and> g2 @ 0x2E # g3 @ 0x2E # rest = g2 @ 0x2E # (g3 @ 0x2E # rest) \<and>
        (\<exists>g'' rest''. octet_group g'' \<and> g3 @ 0x2E # rest = g'' @ 0x2E # rest'' \<and>
           Q (Suc (Suc (Suc (i + length g1) + length g2) + length g''), rest''))"
      using g(2) by blast
    then have "octet_group g1 \<and> r = g1 @ 0x2E # (g2 @ 0x2E # g3 @ 0x2E # rest) \<and>
        (\<exists>g' rest'. octet_group g' \<and> g2 @ 0x2E # g3 @ 0x2E # rest = g' @ 0x2E # rest' \<and>
          (\<exists>g'' rest''. octet_group g'' \<and> rest' = g'' @ 0x2E # rest'' \<and>
             Q (Suc (Suc (Suc (i + length g1) + length g') + length g''), rest'')))"
      using g(1) g(4) by blast
    then show "\<exists>y \<in> set (match_ends (Repeat 3 3 ?P) (i, r)). Q y"
      unfolding nested by blast
  qed
qed

lemma nonempty_iff: "xs \<noteq> [] \<longleftrightarrow> (\<exists>x. x \<in> set xs)"
  by (cases xs) auto

lemma re_match_ipv4:
  "re_match ipv4_pattern s \<longleftrightarrow>
     (\<exists>g1 g2 g3 g4 t. octet_group g1 \<and> octet_group g2 \<and> octet_group g3 \<and> octet_group g4 \<and>
        (t = [] \<or> t = [0x0A]) \<and> s = g1 @ 0x2E # g2 @ 0x2E # g3 @ 0x2E # g4 @ t)"
proof -
  let ?three = "Repeat 3 3 (Seq (Repeat 1 3 Digit) (Lit 0x2E))"
  let ?last = "Seq (Repeat 1 3 Digit) Eol"
  have last: "(\<exists>x. x \<in> set (match_ends ?last (k, u))) \<longleftrightarrow>
      (\<exists>g t. octet_group g \<and> (t = [] \<or> t = [0x0A]) \<and> u = g @ t)" for k u
  proof
    assume "\<exists>x. x \<in> set (match_ends ?last (k, u))"
    then obtain x j mid where "(j, mid) \<in> set (match_ends (Repeat 1 3 Digit) (k, u))"
      and "x \<in> set (match_ends Eol (j, mid))"
      unfolding ends_Seq by auto
    then show "\<exists>g t. octet_group g \<and> (t = [] \<or> t = [0x0A]) \<and> u = g @ t"
      unfolding ends_octet by (auto split: if_splits)
  next
    assume "\<exists>g t. octet_group g \<and> (t = [] \<or> t = [0x0A]) \<and> u = g @ t"
    then obtain g t where g: "octet_group g" "t = [] \<or> t = [0x0A]" "u = g @ t" by auto
    then have "(k + length g, t) \<in> set (match_ends (Repeat 1 3 Digit) (k, u))"
      unfolding ends_octet by auto
    moreover have "(k + length g, t) \<in> set (match_ends Eol (k + length g, t))"
      using g(2) by auto
    ultimately have "(k + length g, t) \<in> set (match_ends ?last (k, u))"
      unfolding ends_Seq by blast
    then show "\<exists>x. x \<in> set (match_ends ?last (k, u))" by blast
  qed
  have "re_match ipv4_pattern s \<longleftrightarrow> (\<exists>x. x \<in> set (match_ends (Seq ?three ?last) (0, s)))"
    unfolding re_match_def ipv4_pattern_def nonempty_iff ends_Seq by simp
  also have "\<dots> \<longleftrightarrow> (\<exists>y \<in> set (match_ends ?three (0, s)). \<exists>x. x \<in> set (match_ends ?last y))"
    unfolding ends_Seq by blast
  also have "\<dots> \<longleftrightarrow> (\<exists>g1 g2 g3 rest. octet_group g1 \<and> octet_group g2 \<and> octet_group g3 \<and>
        s = g1 @ 0x2E # g2 @ 0x2E # g3 @ 0x2E # rest \<and>
        (\<exists>x. x \<in> set (match_ends ?last
           (Suc (Suc (Suc (0 + length g1) + length g2) + length g3), rest))))"
    by (rule bex_three_groups)
  finally show ?thesis
    unfolding last by blast
qed

lemma octet_group_facts:
  assumes "octet_group g"
  shows "g \<noteq> []" "list_all is_decimal g" "0x2E \<notin> set g" "0x0A \<notin> set g"
proof -
  show "g \<noteq> []" "list_all is_decimal g" using assms by (auto simp add: octet_group_def)
  then have "\<forall>c \<in> set g. is_decimal c" by (simp add: list_all_iff)
  then show "0x2E \<notin> set g" "0x0A \<notin> set g" using decimal_not_special(1,2) by blast+
qed

lemma all_octets_four:
  assumes "py_int p1 = Some (int v1)" "py_int p2 = Some (int v2)" "py_int p3 = Some (int v3)"
    "py_int p4 = Some (int v4)"
  shows "all_octets [p1, p2, p3, p4] = Some (v1 \<le> 255 \<and> v2 \<le> 255 \<and> v3 \<le> 255 \<and> v4 \<le> 255)"
  using assms by simp

lemma valid_of_groups:
  assumes "octet_group g1" "octet_group g2" "octet_group g3" "octet_group g4"
    and "t = [] \<or> t = [0x0A]"
  shows "is_valid_ip (g1 @ 0x2E # g2 @ 0x2E # g3 @ 0x2E # g4 @ t) =
           Some (group_value g1 \<le> 255 \<and> group_value g2 \<le> 255 \<and> group_value g3 \<le> 255 \<and>
                 group_value g4 \<le> 255)"
proof -
  let ?s = "g1 @ 0x2E # g2 @ 0x2E # g3 @ 0x2E # g4 @ t"
  have m: "re_match ipv4_pattern ?s"
    unfolding re_match_ipv4 using assms by blast
  have "0x2E \<notin> set (g4 @ t)" using octet_group_facts(3) [OF assms(4)] assms(5) by auto
  then have parts: "py_split ?s 0x2E = [g1, g2, g3, g4 @ t]"
    using split_four [of "0x2E" g1 g2 g3 "g4 @ t"] octet_group_facts(3) assms(1-3) by simp
  have last: "py_int (g4 @ t) = Some (int (group_value g4))"
    using assms(5) py_int_group [OF octet_group_facts(1,2) [OF assms(4)]] by auto
  have "all_octets [g1, g2, g3, g4 @ t] =
      Some (group_value g1 \<le> 255 \<and> group_value g2 \<le> 255 \<and> group_value g3 \<le> 255 \<and>
            group_value g4 \<le> 255)"
    by (rule all_octets_four [OF
          py_int_group(1) [OF octet_group_facts(1,2) [OF assms(1)]]
          py_int_group(1) [OF octet_group_facts(1,2) [OF assms(2)]]
          py_int_group(1) [OF octet_group_facts(1,2) [OF assms(3)]] last])
  then show ?thesis
    by (simp add: is_valid_ip_def m parts)
qed

lemma leading_zero_value: "decimal z = Some 0 \<Longrightarrow> group_value (z # g) = group_value g"
  by (simp add: group_value_def digit_value_def)

lemma leading_zero_group:
  "decimal z = Some 0 \<Longrightarrow> octet_group g \<Longrightarrow> length g \<le> 2 \<Longrightarrow> octet_group (z # g)"
  by (simp add: octet_group_def is_decimal_def)

lemma decomposition_unique:
  assumes g: "octet_group g1" "octet_group g2" "octet_group g3" "octet_group g4"
    and h: "octet_group h1" "octet_group h2" "octet_group h3" "octet_group h4"
    and t: "t = [] \<or> t = [0x0A]" and u: "u = [] \<or> u = [0x0A]"
    and eq: "g1 @ 0x2E # g2 @ 0x2E # g3 @ 0x2E # g4 @ t = h1 @ 0x2E # h2 @ 0x2E # h3 @ 0x2E # h4 @ u"
  shows "g1 = h1 \<and> g2 = h2 \<and> g3 = h3 \<and> g4 = h4"
proof -
  have gt: "0x2E \<notin> set (g4 @ t)" using octet_group_facts(3) [OF g(4)] t by auto
  have hu: "0x2E \<notin> set (h4 @ u)" using octet_group_facts(3) [OF h(4)] u by auto
  have "[g1, g2, g3, g4 @ t] = py_split (g1 @ 0x2E # g2 @ 0x2E # g3 @ 0x2E # g4 @ t) 0x2E"
    using split_four [OF octet_group_facts(3) [OF g(1)] octet_group_facts(3) [OF g(2)]
        octet_group_facts(3) [OF g(3)] gt]
    by simp
  also have "\<dots> = py_split (h1 @ 0x2E # h2 @ 0x2E # h3 @ 0x2E # h4 @ u) 0x2E"
    by (simp only: eq)
  also have "\<dots> = [h1, h2, h3, h4 @ u]"
    using split_four [OF octet_group_facts(3) [OF h(1)] octet_group_facts(3) [OF h(2)]
        octet_group_facts(3) [OF h(3)] hu]
    by simp
  finally have parts: "g1 = h1" "g2 = h2" "g3 = h3" and last: "g4 @ t = h4 @ u"
    by simp_all
  have ng: "0x0A \<notin> set g4" and nh: "0x0A \<notin> set h4"
    using octet_group_facts(4) [OF g(4)] octet_group_facts(4) [OF h(4)] by simp_all
  have "g4 = h4"
  proof (cases "t = []")
    case True
    show ?thesis
    proof (cases "u = []")
      case True
      with \<open>t = []\<close> last show ?thesis by simp
    next
      case False
      then have "g4 = h4 @ [0x0A]" using u last \<open>t = []\<close> by simp
      then have "0x0A \<in> set g4" by simp
      with ng show ?thesis by simp
    qed
  next
    case False
    then have t': "t = [0x0A]" using t by simp
    show ?thesis
    proof (cases "u = []")
      case True
      then have "h4 = g4 @ [0x0A]" using t' last by simp
      then have "0x0A \<in> set h4" by simp
      with nh show ?thesis by simp
    next
      case False
      then have "u = [0x0A]" using u by simp
      with t' last show ?thesis by simp
    qed
  qed
  with parts show ?thesis by simp
qed

subsection \<open>The verdict\<close>

lemma dotted_four:
  "dotted [g1, g2, g3, g4] @ t = g1 @ 0x2E # g2 @ 0x2E # g3 @ 0x2E # g4 @ t"
  by simp

text \<open>
  The validator never raises, and it holds exactly of the texts made of four groups of
  one to three decimal digits with dots between them, each group of value at most 255,
  and of such a text followed by one line break.
\<close>

lemma is_valid_ip_characterised:
  "is_valid_ip s =
     Some (\<exists>g1 g2 g3 g4 t. octet_group g1 \<and> octet_group g2 \<and> octet_group g3 \<and> octet_group g4 \<and>
             (t = [] \<or> t = [0x0A]) \<and> s = dotted [g1, g2, g3, g4] @ t \<and>
             group_value g1 \<le> 255 \<and> group_value g2 \<le> 255 \<and> group_value g3 \<le> 255 \<and>
             group_value g4 \<le> 255)"
proof (cases "re_match ipv4_pattern s")
  case False
  then have "\<not> (\<exists>g1 g2 g3 g4 t. octet_group g1 \<and> octet_group g2 \<and> octet_group g3 \<and> octet_group g4 \<and>
             (t = [] \<or> t = [0x0A]) \<and> s = g1 @ 0x2E # g2 @ 0x2E # g3 @ 0x2E # g4 @ t)"
    unfolding re_match_ipv4 by blast
  then have "\<not> (\<exists>g1 g2 g3 g4 t. octet_group g1 \<and> octet_group g2 \<and> octet_group g3 \<and> octet_group g4 \<and>
             (t = [] \<or> t = [0x0A]) \<and> s = dotted [g1, g2, g3, g4] @ t \<and>
             group_value g1 \<le> 255 \<and> group_value g2 \<le> 255 \<and> group_value g3 \<le> 255 \<and>
             group_value g4 \<le> 255)"
    unfolding dotted_four by blast
  then show ?thesis using False by (simp add: is_valid_ip_def)
next
  case True
  then obtain g1 g2 g3 g4 t where g: "octet_group g1" "octet_group g2" "octet_group g3" "octet_group g4"
    and t: "t = [] \<or> t = [0x0A]" and s: "s = g1 @ 0x2E # g2 @ 0x2E # g3 @ 0x2E # g4 @ t"
    unfolding re_match_ipv4 by blast
  have v: "is_valid_ip s = Some (group_value g1 \<le> 255 \<and> group_value g2 \<le> 255 \<and>
      group_value g3 \<le> 255 \<and> group_value g4 \<le> 255)"
    unfolding s by (rule valid_of_groups [OF g t])
  have "(\<exists>h1 h2 h3 h4 u. octet_group h1 \<and> octet_group h2 \<and> octet_group h3 \<and> octet_group h4 \<and>
             (u = [] \<or> u = [0x0A]) \<and> s = dotted [h1, h2, h3, h4] @ u \<and>
             group_value h1 \<le> 255 \<and> group_value h2 \<le> 255 \<and> group_value h3 \<le> 255 \<and>
             group_value h4 \<le> 255) \<longleftrightarrow>
        (group_value g1 \<le> 255 \<and> group_value g2 \<le> 255 \<and> group_value g3 \<le> 255 \<and>
         group_value g4 \<le> 255)"
  proof
    assume "\<exists>h1 h2 h3 h4 u. octet_group h1 \<and> octet_group h2 \<and> octet_group h3 \<and> octet_group h4 \<and>
             (u = [] \<or> u = [0x0A]) \<and> s = dotted [h1, h2, h3, h4] @ u \<and>
             group_value h1 \<le> 255 \<and> group_value h2 \<le> 255 \<and> group_value h3 \<le> 255 \<and>
             group_value h4 \<le> 255"
    then obtain h1 h2 h3 h4 u where h: "octet_group h1" "octet_group h2" "octet_group h3" "octet_group h4"
      and u: "u = [] \<or> u = [0x0A]" and s': "s = dotted [h1, h2, h3, h4] @ u"
      and small: "group_value h1 \<le> 255" "group_value h2 \<le> 255" "group_value h3 \<le> 255"
        "group_value h4 \<le> 255"
      by blast
    have "g1 @ 0x2E # g2 @ 0x2E # g3 @ 0x2E # g4 @ t = h1 @ 0x2E # h2 @ 0x2E # h3 @ 0x2E # h4 @ u"
      using s s' unfolding dotted_four by simp
    from decomposition_unique [OF g h t u this] small
    show "group_value g1 \<le> 255 \<and> group_value g2 \<le> 255 \<and> group_value g3 \<le> 255 \<and>
         group_value g4 \<le> 255" by simp
  next
    assume "group_value g1 \<le> 255 \<and> group_value g2 \<le> 255 \<and> group_value g3 \<le> 255 \<and>
         group_value g4 \<le> 255"
    moreover have "s = dotted [g1, g2, g3, g4] @ t" using s unfolding dotted_four by simp
    ultimately show "\<exists>h1 h2 h3 h4 u. octet_group h1 \<and> octet_group h2 \<and> octet_group h3 \<and> octet_group h4 \<and>
             (u = [] \<or> u = [0x0A]) \<and> s = dotted [h1, h2, h3, h4] @ u \<and>
             group_value h1 \<le> 255 \<and> group_value h2 \<le> 255 \<and> group_value h3 \<le> 255 \<and>
             group_value h4 \<le> 255"
      using g t by blast
  qed
  then show ?thesis using v by simp
qed

lemma is_valid_ip_total: "is_valid_ip s \<noteq> None"
  using is_valid_ip_characterised [of s] by simp

lemma last_of_dotted:
  assumes "octet_group g4"
  shows "is_decimal (last (dotted [g1, g2, g3, g4]))"
proof -
  have "g4 \<noteq> []" and "list_all is_decimal g4" using octet_group_facts [OF assms] by simp_all
  then have "is_decimal (last g4)" by (simp add: list_all_iff)
  then show ?thesis using \<open>g4 \<noteq> []\<close> by simp
qed

lemma final_newline_is_no_address:
  "\<not> (\<exists>g1 g2 g3 g4. octet_group g1 \<and> octet_group g2 \<and> octet_group g3 \<and> octet_group g4 \<and>
        ascii ''1.1.1.1'' @ [0x0A] = dotted [g1, g2, g3, g4])"
proof
  assume "\<exists>g1 g2 g3 g4. octet_group g1 \<and> octet_group g2 \<and> octet_group g3 \<and> octet_group g4 \<and>
        ascii ''1.1.1.1'' @ [0x0A] = dotted [g1, g2, g3, g4]"
  then obtain g1 g2 g3 g4 where "octet_group g4"
    and "ascii ''1.1.1.1'' @ [0x0A] = dotted [g1, g2, g3, g4]" by blast
  then have "is_decimal (last (ascii ''1.1.1.1'' @ [0x0A]))"
    using last_of_dotted [of g4 g1 g2 g3] by simp
  then show False using decimal_not_special(2) by auto
qed

lemma four_groups:
  assumes "length gs = 4"
  obtains g1 g2 g3 g4 where "gs = [g1, g2, g3, g4]"
proof -
  from assms obtain g1 r1 where "gs = g1 # r1" "length r1 = 3"
    by (cases gs) auto
  moreover then obtain g2 r2 where "r1 = g2 # r2" "length r2 = 2"
    by (cases r1) auto
  moreover then obtain g3 r3 where "r2 = g3 # r3" "length r3 = 1"
    by (cases r2) auto
  moreover then obtain g4 where "r3 = [g4]"
    by (cases r3) auto
  ultimately show ?thesis using that by simp
qed

lemma valid_of_dotted:
  assumes "octet_group g1" "octet_group g2" "octet_group g3" "octet_group g4"
  shows "is_valid_ip (dotted [g1, g2, g3, g4]) =
           Some (group_value g1 \<le> 255 \<and> group_value g2 \<le> 255 \<and> group_value g3 \<le> 255 \<and>
                 group_value g4 \<le> 255)"
  using valid_of_groups [OF assms, of "[]"] by simp

lemma zero_prefix_keeps_verdict:
  assumes "length gs = 4" and "list_all octet_group gs" and "i < 4" and "length (gs ! i) \<le> 2"
    and z: "decimal z = Some 0"
  shows "is_valid_ip (dotted (gs[i := z # gs ! i])) = is_valid_ip (dotted gs)"
proof -
  from assms(1) obtain g1 g2 g3 g4 where gs: "gs = [g1, g2, g3, g4]" by (rule four_groups)
  then have g: "octet_group g1" "octet_group g2" "octet_group g3" "octet_group g4"
    using assms(2) by simp_all
  note v = valid_of_dotted leading_zero_value [OF z] leading_zero_group [OF z]
  from assms(3) consider "i = 0" | "i = 1" | "i = 2" | "i = 3" by arith
  then show ?thesis
  proof cases
    case 1
    then have "length g1 \<le> 2" using assms(4) gs by simp
    then show ?thesis unfolding gs 1 using g by (simp add: v del: dotted.simps)
  next
    case 2
    then have "length g2 \<le> 2" using assms(4) gs by simp
    then show ?thesis unfolding gs 2 using g by (simp add: v del: dotted.simps)
  next
    case 3
    then have "length g3 \<le> 2" using assms(4) gs by (simp add: numeral_2_eq_2)
    then show ?thesis unfolding gs 3 using g by (simp add: v numeral_2_eq_2 del: dotted.simps)
  next
    case 4
    then have "length g4 \<le> 2" using assms(4) gs by (simp add: numeral_3_eq_3)
    then show ?thesis unfolding gs 4 using g by (simp add: v numeral_3_eq_3 del: dotted.simps)
  qed
qed

section \<open>The validator at particular texts\<close>

text \<open>
  C1: the validator holds exactly of the texts made of four dot-separated groups of one
  to three decimal digits, each of value at most 255. The text below is \<open>1.1.1.1\<close>
  followed by a line break, which is no such text; the validator accepts it, since \<open>$\<close>
  also holds before a final line break and \<open>int\<close> drops the line break.
\<close>

theorem validator_accepts_final_newline:
  "is_valid_ip (ascii ''1.1.1.1'' @ [0x0A]) = Some True"
  by (simp add: validator_eval)

text \<open>
  C2, as stated: a group with a leading zero makes the validator answer \<open>False\<close>. The
  first group of \<open>01.2.3.4\<close> has one, and the validator accepts the text.
\<close>

theorem leading_zero_accepted:
  "py_split (ascii ''01.2.3.4'') 0x2E = [ascii ''01'', ascii ''2'', ascii ''3'', ascii ''4''] \<and>
   leading_zero (ascii ''01'') \<and>
   is_valid_ip (ascii ''01.2.3.4'') = Some True"
  by (simp add: validator_eval leading_zero_def)

text \<open>
  C2, amended: a leading zero does not invalidate a candidate. For every text of four
  dot-separated groups of one to three decimal digits, with leading zeros or without,
  the validator answers whether every group has a value of at most 255; and writing a
  zero before a group of at most two digits leaves the answer as it was.
\<close>

theorem leading_zeros_do_not_matter:
  "(octet_group g1 \<and> octet_group g2 \<and> octet_group g3 \<and> octet_group g4 \<longrightarrow>
      is_valid_ip (dotted [g1, g2, g3, g4]) =
        Some (group_value g1 \<le> 255 \<and> group_value g2 \<le> 255 \<and> group_value g3 \<le> 255 \<and>
              group_value g4 \<le> 255)) \<and>
   (length gs = 4 \<and> list_all octet_group gs \<and> i < 4 \<and> length (gs ! i) \<le> 2 \<and>
      decimal z = Some 0 \<longrightarrow>
      is_valid_ip (dotted (gs[i := z # gs ! i])) = is_valid_ip (dotted gs))"
  using valid_of_dotted zero_prefix_keeps_verdict by blast

theorem leading_zeros_do_not_matter_witness:
  "is_valid_ip (ascii ''01.2.3.4'') = Some True \<and>
   is_valid_ip (ascii ''001.2.3.4'') = is_valid_ip (ascii ''01.2.3.4'') \<and>
   is_valid_ip (ascii ''1.2.3.0256'') = Some False \<and>
   is_valid_ip (ascii ''1.2.3.256'') = Some False"
proof -
  have groups: "octet_group (ascii ''01'')" "octet_group (ascii ''2'')" "octet_group (ascii ''3'')"
    "octet_group (ascii ''4'')" "octet_group (ascii ''1'')" "octet_group (ascii ''256'')"
    by (simp_all add: octet_group_def ascii_def is_decimal_def decimal_def unicode_zeros_def)
  have vals: "group_value (ascii ''01'') = 1" "group_value (ascii ''2'') = 2"
    "group_value (ascii ''3'') = 3" "group_value (ascii ''4'') = 4"
    "group_value (ascii ''1'') = 1" "group_value (ascii ''256'') = 256"
    by (simp_all add: group_value_def digit_value_def ascii_def decimal_def unicode_zeros_def)
  have zero: "decimal 0x30 = Some 0"
    by (simp add: decimal_def unicode_zeros_def)
  have texts: "dotted [ascii ''01'', ascii ''2'', ascii ''3'', ascii ''4''] = ascii ''01.2.3.4''"
    "dotted [ascii ''1'', ascii ''2'', ascii ''3'', ascii ''256''] = ascii ''1.2.3.256''"
    "dotted ([ascii ''01'', ascii ''2'', ascii ''3'', ascii ''4'']
       [0 := 0x30 # [ascii ''01'', ascii ''2'', ascii ''3'', ascii ''4''] ! 0]) = ascii ''001.2.3.4''"
    by (simp_all add: ascii_def)
  have one: "is_valid_ip (ascii ''01.2.3.4'') = Some True"
    using leading_zeros_do_not_matter
      [of "ascii ''01''" "ascii ''2''" "ascii ''3''" "ascii ''4''", THEN conjunct1]
      groups vals texts by simp
  have two: "is_valid_ip (ascii ''001.2.3.4'') = is_valid_ip (ascii ''01.2.3.4'')"
    using leading_zeros_do_not_matter
      [of _ _ _ _ "[ascii ''01'', ascii ''2'', ascii ''3'', ascii ''4'']" 0 "0x30", THEN conjunct2]
      groups zero texts by (simp add: ascii_def)
  have three: "is_valid_ip (ascii ''1.2.3.256'') = Some False"
    using leading_zeros_do_not_matter
      [of "ascii ''1''" "ascii ''2''" "ascii ''3''" "ascii ''256''", THEN conjunct1]
      groups vals texts by simp
  have four: "is_valid_ip (ascii ''1.2.3.0256'') = Some False"
    by (simp add: validator_eval)
  from one two three four show ?thesis by simp
qed

text \<open>Decimal digits of other scripts count as digits: four Arabic-Indic ones.\<close>

lemma validator_accepts_other_scripts:
  "is_valid_ip [0x661, 0x2E, 0x661, 0x2E, 0x661, 0x2E, 0x661] = Some True"
  by (simp add: validator_eval)

section \<open>What the example world does\<close>

lemma strip_8888: "py_strip (ascii ''8.8.8.8'') = ascii ''8.8.8.8''"
  by (simp add: py_strip_def strip_with_def ascii_def is_space_def)

lemma strip_space_8888: "py_strip (ascii '' 8.8.8.8'') = ascii ''8.8.8.8''"
  by (simp add: py_strip_def strip_with_def ascii_def is_space_def)

lemma valid_8888: "is_valid_ip (ascii ''8.8.8.8'') = Some True"
  by (simp add: validator_eval)

lemma lookup_supplied:
  assumes "ip \<noteq> []" and "http_get w (ipapi_url ip) = replies_with data"
  shows "lookup_body w ip =
           (and_then (py_in (ascii ''error'') data) (\<lambda>has_error.
              if \<not> has_error then format_info w data else Inr (remote_error_prefix @ ip)),
            [ipapi_url ip])"
  using assms
  by (simp add: lookup_body_def working_address_def requests_get_def replies_with_def and_then_def
      split: sum.splits)

lemma lookup_google:
  assumes "http_get w (ipapi_url (ascii ''8.8.8.8'')) = replies_with google_payload"
  shows "get_ip_info w (ascii ''8.8.8.8'') = (google_report, [ipapi_url (ascii ''8.8.8.8'')])"
proof -
  have ne: "ascii ''8.8.8.8'' \<noteq> []" by (simp add: ascii_def)
  have no_error: "py_in (ascii ''error'') google_payload = Inr False"
    by (simp add: google_payload_def ascii_def)
  have report: "format_info w google_payload = Inr google_report"
    by (simp add: google_payload_def format_info_dict report_lines_def slot_def
        google_report_def google_report_lines_def ascii_def)
  show ?thesis
    by (simp add: get_ip_info_def lookup_supplied [OF ne assms] no_error report and_then_def)
qed

lemma google_world_serves:
  "http_get google_world (ipapi_url (ascii ''8.8.8.8'')) = replies_with google_payload"
  by (simp add: google_world_def serving_def)

section \<open>Classification of failures\<close>

lemma handle_exception_message: "handle_exception e = message_for e"
  by (cases e) (simp_all add: handle_exception_def)

lemma get_ip_info_cases:
  "get_ip_info w ip =
     (case lookup_body w ip of
        (Inl e, log) \<Rightarrow> (message_for e, log)
      | (Inr text, log) \<Rightarrow> (text, log))"
  by (simp add: get_ip_info_def handle_exception_message split: prod.splits sum.splits)

lemma lookup_supplied_raises:
  assumes "ip \<noteq> []"
    and "http_get w (ipapi_url ip) = Inl e \<or> http_get w (ipapi_url ip) = Inr (Response (Inl e))"
  shows "lookup_body w ip = (Inl e, [ipapi_url ip])"
  using assms
  by (auto simp add: lookup_body_def working_address_def requests_get_def and_then_def)

lemma lookup_discovery_raises:
  assumes "http_get w ipify_url = Inl e \<or> http_get w ipify_url = Inr (Response (Inl e)) \<or>
           (\<exists>d. http_get w ipify_url = replies_with d \<and> py_getitem d (ascii ''ip'') = Inl e)"
  shows "lookup_body w [] = (Inl e, [ipify_url])"
  using assms
  by (auto simp add: lookup_body_def working_address_def requests_get_def and_then_def
      replies_with_def)

lemma lookup_discovered:
  assumes "http_get w ipify_url = replies_with d" and "py_getitem d (ascii ''ip'') = Inr a"
    and "http_get w (ipapi_url (py_str w a)) = replies_with data"
  shows "lookup_body w [] =
           (and_then (py_in (ascii ''error'') data) (\<lambda>has_error.
              if \<not> has_error then format_info w data
              else Inr (remote_error_prefix @ py_str w a)),
            [ipify_url, ipapi_url (py_str w a)])"
  using assms
  by (simp add: lookup_body_def working_address_def requests_get_def replies_with_def and_then_def
      split: sum.splits)

lemma lookup_log_shape:
  "\<exists>a. snd (lookup_body w ip) = [ipify_url] \<or> snd (lookup_body w ip) = [ipapi_url a] \<or>
       snd (lookup_body w ip) = [ipify_url, ipapi_url a]"
  by (auto simp add: lookup_body_def working_address_def requests_get_def
      split: sum.splits prod.splits if_splits)

lemma snd_get_ip_info: "snd (get_ip_info w ip) = snd (lookup_body w ip)"
  by (simp add: get_ip_info_def split: prod.splits sum.splits)

lemma lookup_log_bounded:
  "length (snd (get_ip_info w ip)) \<le> 2 \<and> distinct (snd (get_ip_info w ip))"
proof -
  obtain a where "snd (lookup_body w ip) = [ipify_url] \<or> snd (lookup_body w ip) = [ipapi_url a] \<or>
       snd (lookup_body w ip) = [ipify_url, ipapi_url a]"
    using lookup_log_shape by blast
  then show ?thesis
    using ipify_not_ipapi [of a] by (auto simp add: snd_get_ip_info)
qed

section \<open>The slots of the report\<close>







section \<open>The end-to-end example\<close>

lemma handle_google:
  assumes "http_get w (ipapi_url (ascii ''8.8.8.8'')) = replies_with google_payload"
  shows "handle_message w (ascii ''8.8.8.8'') =
           Some ([(fetching_text, None), (google_report, Some markdown)],
                 [ipapi_url (ascii ''8.8.8.8'')])"
  by (simp add: handle_message_def strip_8888 valid_8888 lookup_google [OF assms])

lemma google_report_values:
  "contains google_report (ascii ''8.8.8.8'')"
  "contains google_report (ascii ''United States'')"
  "contains google_report (ascii ''Mountain View'')"
  "contains google_report (ascii ''Google LLC'')"
  "contains google_report (ascii ''37.4'')"
  "contains google_report (ascii ''-122.1'')"
  "contains google_report (ascii ''America/Los_Angeles'')"
  by (simp_all add: google_report_def google_report_lines_def info_lines_def text_defs ascii_def)

lemma google_report_placeholder:
  "contains google_report not_available" "occurrences google_report not_available = 1"
  by (simp_all add: google_report_def google_report_lines_def info_lines_def text_defs ascii_def)

text \<open>
  C3, as stated: with the example payload, the reply to the free text \<open>8.8.8.8\<close> holds no
  \<open>N/A\<close>. It does: the payload has no \<open>region\<close>, and the report has a line for it.
\<close>

theorem google_example_has_placeholder:
  "handle_message google_world (ascii ''8.8.8.8'') =
     Some ([(fetching_text, None), (google_report, Some markdown)],
           [ipapi_url (ascii ''8.8.8.8'')]) \<and>
   contains google_report not_available"
  by (simp add: handle_google [OF google_world_serves] google_report_placeholder)

text \<open>
  C3, amended: in any world whose geolocation service answers the request for
  \<open>8.8.8.8\<close> with the example payload, the free text \<open>8.8.8.8\<close> is answered by the
  acknowledgement and then the report, after one outbound call; the report holds each of
  the seven values of the payload, and holds \<open>N/A\<close> at exactly one place, the line of the
  region.
\<close>

theorem google_example_report:
  assumes "http_get w (ipapi_url (ascii ''8.8.8.8'')) = replies_with google_payload"
  shows "handle_message w (ascii ''8.8.8.8'') =
           Some ([(fetching_text, None), (google_report, Some markdown)],
                 [ipapi_url (ascii ''8.8.8.8'')]) \<and>
         contains google_report (ascii ''8.8.8.8'') \<and>
         contains google_report (ascii ''United States'') \<and>
         contains google_report (ascii ''Mountain View'') \<and>
         contains google_report (ascii ''Google LLC'') \<and>
         contains google_report (ascii ''37.4'') \<and>
         contains google_report (ascii ''-122.1'') \<and>
         contains google_report (ascii ''America/Los_Angeles'') \<and>
         occurrences google_report not_available = 1 \<and>
         google_report_lines ! 5 = label_region @ not_available"
proof -
  have "google_report_lines ! 5 = label_region @ not_available"
    by (simp add: google_report_lines_def info_lines_def)
  then show ?thesis
    using handle_google [OF assms] google_report_values google_report_placeholder(2) by simp
qed

theorem google_example_report_witness:
  "http_get google_world (ipapi_url (ascii ''8.8.8.8'')) = replies_with google_payload \<and>
   handle_message google_world (ascii ''8.8.8.8'') =
     Some ([(fetching_text, None), (google_report, Some markdown)],
           [ipapi_url (ascii ''8.8.8.8'')]) \<and>
   occurrences google_report not_available = 1"
  using google_example_report [OF google_world_serves] google_world_serves by simp

section \<open>The fields of the report\<close>




section \<open>An error reported by the service\<close>

text \<open>
  C5: when the payload of the geolocation service is a dictionary with the key \<open>error\<close>,
  the lookup returns the text that names the address the request was made for and no
  report: the address supplied, or, for the empty address, the one the discovery
  service gave. The log shows the requests made.
\<close>

theorem remote_error_names_address:
  "(ip \<noteq> [] \<and> http_get w (ipapi_url ip) = replies_with (PyDict kvs) \<and>
      ascii ''error'' \<in> set (map fst kvs) \<longrightarrow>
      get_ip_info w ip = (remote_error_prefix @ ip, [ipapi_url ip])) \<and>
   (http_get w ipify_url = replies_with d \<and> py_getitem d (ascii ''ip'') = Inr a \<and>
      http_get w (ipapi_url (py_str w a)) = replies_with (PyDict kvs) \<and>
      ascii ''error'' \<in> set (map fst kvs) \<longrightarrow>
      get_ip_info w [] =
        (remote_error_prefix @ py_str w a, [ipify_url, ipapi_url (py_str w a)]))"
proof -
  have supplied: "get_ip_info w ip = (remote_error_prefix @ ip, [ipapi_url ip])"
    if "ip \<noteq> []" and "http_get w (ipapi_url ip) = replies_with (PyDict kvs)"
      and "ascii ''error'' \<in> set (map fst kvs)"
    using that(3) by (simp add: get_ip_info_def lookup_supplied [OF that(1) that(2)] and_then_def)
  have discovered: "get_ip_info w [] =
      (remote_error_prefix @ py_str w a, [ipify_url, ipapi_url (py_str w a)])"
    if "http_get w ipify_url = replies_with d" and "py_getitem d (ascii ''ip'') = Inr a"
      and "http_get w (ipapi_url (py_str w a)) = replies_with (PyDict kvs)"
      and "ascii ''error'' \<in> set (map fst kvs)"
    using that(4)
    by (simp add: get_ip_info_def lookup_discovered [OF that(1) that(2) that(3)] and_then_def)
  show ?thesis using supplied discovered by blast
qed

theorem remote_error_names_address_witness:
  "get_ip_info error_world (ascii ''10.0.0.1'') =
     (remote_error_prefix @ ascii ''10.0.0.1'', [ipapi_url (ascii ''10.0.0.1'')]) \<and>
   get_ip_info error_world [] =
     (remote_error_prefix @ ascii ''10.0.0.1'', [ipify_url, ipapi_url (ascii ''10.0.0.1'')])"
proof -
  let ?kvs = "[(ascii ''ip'', PyStr (ascii ''10.0.0.1'')), (ascii ''error'', PyBool True),
               (ascii ''reason'', PyStr (ascii ''Reserved IP Address''))]"
  let ?a = "PyStr (ascii ''10.0.0.1'')"
  have ne: "ascii ''10.0.0.1'' \<noteq> []" by (simp add: ascii_def)
  have differ: "ipapi_url (ascii ''10.0.0.1'') \<noteq> ipify_url"
    using ipify_not_ipapi [of "ascii ''10.0.0.1''"] by simp
  have geo: "http_get error_world (ipapi_url (ascii ''10.0.0.1'')) = replies_with (PyDict ?kvs)"
    using differ by (simp add: error_world_def serving_def error_payload_def)
  have disc: "http_get error_world ipify_url = replies_with ipify_payload"
    by (simp add: error_world_def serving_def)
  have item: "py_getitem ipify_payload (ascii ''ip'') = Inr ?a"
    by (simp add: ipify_payload_def)
  have err: "ascii ''error'' \<in> set (map fst ?kvs)" by simp
  from remote_error_names_address [of "ascii ''10.0.0.1''" error_world ?kvs ipify_payload ?a]
  show ?thesis using ne geo disc item err by simp
qed

section \<open>Failures\<close>

text \<open>
  C6: for the empty address, if the discovery fails, whether the request raises, the
  payload cannot be decoded or it has no \<open>ip\<close>, the text for the exception is returned
  and the discovery request is the only outbound call: no geolocation request is made.
\<close>

theorem discovery_failure_is_final:
  assumes "http_get w ipify_url = Inl e \<or> http_get w ipify_url = Inr (Response (Inl e)) \<or>
           (\<exists>d. http_get w ipify_url = replies_with d \<and> py_getitem d (ascii ''ip'') = Inl e)"
  shows "get_ip_info w [] = (message_for e, [ipify_url])"
  by (simp add: get_ip_info_cases lookup_discovery_raises [OF assms])

theorem discovery_failure_is_final_witness:
  "get_ip_info (serving [(ipify_url, Inl (Timeout (ascii ''read timed out'')))]) [] =
     (timeout_message, [ipify_url]) \<and>
   get_ip_info (serving [(ipify_url, replies_with (PyDict []))]) [] =
     (unknown_error_prefix @ [0x27] @ ascii ''ip'' @ [0x27], [ipify_url])"
proof -
  let ?w1 = "serving [(ipify_url, Inl (Timeout (ascii ''read timed out'')))]"
  let ?w2 = "serving [(ipify_url, replies_with (PyDict []))]"
  have "http_get ?w1 ipify_url = Inl (Timeout (ascii ''read timed out''))"
    by (simp add: serving_def)
  then have one: "get_ip_info ?w1 [] = (timeout_message, [ipify_url])"
    using discovery_failure_is_final [of ?w1 "Timeout (ascii ''read timed out'')"] by simp
  have "http_get ?w2 ipify_url = replies_with (PyDict [])"
    by (simp add: serving_def)
  moreover have "py_getitem (PyDict []) (ascii ''ip'') =
      Inl (OtherException ([0x27] @ ascii ''ip'' @ [0x27]))"
    by simp
  ultimately have fails:
    "http_get ?w2 ipify_url = Inl (OtherException ([0x27] @ ascii ''ip'' @ [0x27])) \<or>
     http_get ?w2 ipify_url = Inr (Response (Inl (OtherException ([0x27] @ ascii ''ip'' @ [0x27])))) \<or>
     (\<exists>d. http_get ?w2 ipify_url = replies_with d \<and>
          py_getitem d (ascii ''ip'') = Inl (OtherException ([0x27] @ ascii ''ip'' @ [0x27])))"
    by blast
  have two: "get_ip_info ?w2 [] =
      (unknown_error_prefix @ [0x27] @ ascii ''ip'' @ [0x27], [ipify_url])"
    using discovery_failure_is_final [OF fails] by simp
  from one two show ?thesis by simp
qed

text \<open>
  C7, as stated: a deadline exceeded yields the timeout text. A connection that is not
  made within the timeout raises \<open>ConnectTimeout\<close>, which is a \<open>Timeout\<close> and also a
  \<open>ConnectionError\<close>; the clause for \<open>ConnectionError\<close> comes first, and the lookup
  returns the connection text.
\<close>

theorem connect_timeout_is_connection:
  "isinstance_Timeout (ConnectTimeout (ascii ''timed out'')) \<and>
   get_ip_info
     (serving [(ipapi_url (ascii ''8.8.8.8''), Inl (ConnectTimeout (ascii ''timed out'')))])
     (ascii ''8.8.8.8'') = (connection_message, [ipapi_url (ascii ''8.8.8.8'')]) \<and>
   connection_message \<noteq> timeout_message"
proof -
  let ?w = "serving [(ipapi_url (ascii ''8.8.8.8''), Inl (ConnectTimeout (ascii ''timed out'')))]"
  have ne: "ascii ''8.8.8.8'' \<noteq> []" by (simp add: ascii_def)
  have "http_get ?w (ipapi_url (ascii ''8.8.8.8'')) = Inl (ConnectTimeout (ascii ''timed out''))"
    by (simp add: serving_def)
  then have "lookup_body ?w (ascii ''8.8.8.8'') =
      (Inl (ConnectTimeout (ascii ''timed out'')), [ipapi_url (ascii ''8.8.8.8'')])"
    using lookup_supplied_raises [OF ne] by blast
  then have "get_ip_info ?w (ascii ''8.8.8.8'') =
      (connection_message, [ipapi_url (ascii ''8.8.8.8'')])"
    by (simp add: get_ip_info_cases)
  moreover have "connection_message \<noteq> timeout_message"
    by (simp add: connection_message_def timeout_message_def)
  ultimately show ?thesis by simp
qed

text \<open>
  C7, amended: the lookup always returns a text and raises nothing of class
  \<open>Exception\<close>: whatever the body of its \<open>try\<close> raises is answered by the text of its
  class, and a text the body returns is returned as it is. A \<open>ConnectionError\<close>,
  a connect timeout among them, yields the connection text; a \<open>Timeout\<close> that is not a
  \<open>ConnectionError\<close> yields the timeout text; any other exception yields the text for an
  unknown error followed by \<open>str(e)\<close>. So it is when the geolocation request raises or
  its payload cannot be decoded.
\<close>

theorem lookup_failures_classified:
  "get_ip_info w ip =
     (case lookup_body w ip of
        (Inl e, log) \<Rightarrow> (message_for e, log)
      | (Inr text, log) \<Rightarrow> (text, log)) \<and>
   (ip \<noteq> [] \<and> (http_get w (ipapi_url ip) = Inl e \<or>
                  http_get w (ipapi_url ip) = Inr (Response (Inl e))) \<longrightarrow>
      get_ip_info w ip = (message_for e, [ipapi_url ip])) \<and>
   message_for (ConnectionError m) = connection_message \<and>
   message_for (ConnectTimeout m) = connection_message \<and>
   message_for (Timeout m) = timeout_message \<and>
   message_for (OtherException m) = unknown_error_prefix @ m"
proof -
  have "get_ip_info w ip = (message_for e, [ipapi_url ip])"
    if "ip \<noteq> []" and "http_get w (ipapi_url ip) = Inl e \<or>
                        http_get w (ipapi_url ip) = Inr (Response (Inl e))"
    by (simp add: get_ip_info_cases lookup_supplied_raises [OF that])
  then show ?thesis using get_ip_info_cases [of w ip] by simp
qed

theorem lookup_failures_classified_witness:
  "get_ip_info
     (serving [(ipapi_url (ascii ''8.8.8.8''), Inl (Timeout (ascii ''read timed out'')))])
     (ascii ''8.8.8.8'') = (timeout_message, [ipapi_url (ascii ''8.8.8.8'')])"
proof -
  let ?w = "serving [(ipapi_url (ascii ''8.8.8.8''), Inl (Timeout (ascii ''read timed out'')))]"
  have ne: "ascii ''8.8.8.8'' \<noteq> []" by (simp add: ascii_def)
  have "http_get ?w (ipapi_url (ascii ''8.8.8.8'')) = Inl (Timeout (ascii ''read timed out''))"
    by (simp add: serving_def)
  then show ?thesis
    using ne lookup_failures_classified
      [of ?w "ascii ''8.8.8.8''" "Timeout (ascii ''read timed out'')" "ascii ''read timed out''",
       THEN conjunct2, THEN conjunct1]
    by simp
qed

section \<open>Outbound calls\<close>

text \<open>
  C8: the command \<open>/ip 1.1.1.1\<close> makes one outbound call, the geolocation request for
  \<open>1.1.1.1\<close>, and no discovery request; and every lookup makes at most two outbound
  calls, none of them twice.
\<close>

theorem lookup_calls_bounded:
  "snd (ip_command w [ascii ''1.1.1.1'']) = [ascii ''https://ipapi.co/1.1.1.1/json/''] \<and>
   ipify_url \<notin> set (snd (ip_command w [ascii ''1.1.1.1''])) \<and>
   length (snd (get_ip_info w ip)) \<le> 2 \<and> distinct (snd (get_ip_info w ip))"
proof -
  have "snd (ip_command w [ascii ''1.1.1.1'']) = snd (lookup_body w (ascii ''1.1.1.1''))"
    by (simp add: ip_command_def snd_get_ip_info [symmetric] split: prod.splits)
  also have "\<dots> = [ipapi_url (ascii ''1.1.1.1'')]"
    by (simp add: lookup_body_def working_address_def requests_get_def ascii_def
        split: sum.splits)
  finally have calls: "snd (ip_command w [ascii ''1.1.1.1'']) = [ipapi_url (ascii ''1.1.1.1'')]" .
  have url: "ipapi_url (ascii ''1.1.1.1'') = ascii ''https://ipapi.co/1.1.1.1/json/''"
    by (simp add: ipapi_url_def ascii_def)
  show ?thesis
    using calls url ipify_not_ipapi [of "ascii ''1.1.1.1''"] lookup_log_bounded [of w ip]
    by simp
qed

theorem lookup_calls_bounded_witness:
  "snd (ip_command google_world [ascii ''1.1.1.1'']) = [ascii ''https://ipapi.co/1.1.1.1/json/''] \<and>
   length (snd (get_ip_info error_world [])) \<le> 2"
  using lookup_calls_bounded [of google_world] lookup_calls_bounded [of error_world "[]"]
  by simp

section \<open>Free text\<close>

text \<open>
  C9, as stated: a free text the validator rejects is never looked up. The handler
  strips the text before the validator sees it: the validator rejects \<open>8.8.8.8\<close> with a
  space before it, and the handler looks \<open>8.8.8.8\<close> up.
\<close>

theorem padded_address_is_looked_up:
  "is_valid_ip (ascii '' 8.8.8.8'') = Some False \<and>
   handle_message google_world (ascii '' 8.8.8.8'') =
     Some ([(fetching_text, None), (google_report, Some markdown)],
           [ipapi_url (ascii ''8.8.8.8'')])"
proof -
  have "is_valid_ip (ascii '' 8.8.8.8'') = Some False"
    by (simp add: validator_eval)
  moreover have "handle_message google_world (ascii '' 8.8.8.8'') =
     Some ([(fetching_text, None), (google_report, Some markdown)],
           [ipapi_url (ascii ''8.8.8.8'')])"
    by (simp add: handle_message_def strip_space_8888 valid_8888
        lookup_google [OF google_world_serves])
  ultimately show ?thesis by simp
qed

text \<open>
  C9, amended: for every free text that the validator rejects once the white space at
  its ends is stripped, the handler makes no outbound call and sends one reply, the
  guidance text.
\<close>

theorem rejected_text_gets_guidance:
  assumes "is_valid_ip (py_strip text) = Some False"
  shows "handle_message w text = Some ([(guidance_text, Some markdown)], [])"
  using assms by (simp add: handle_message_def)

theorem rejected_text_gets_guidance_witness:
  "is_valid_ip (py_strip (ascii ''hello'')) = Some False \<and>
   handle_message google_world (ascii ''hello'') = Some ([(guidance_text, Some markdown)], [])"
proof -
  have "py_strip (ascii ''hello'') = ascii ''hello''"
    by (simp add: py_strip_def strip_with_def ascii_def is_space_def)
  moreover have "is_valid_ip (ascii ''hello'') = Some False"
    by (simp add: validator_eval)
  ultimately have h: "is_valid_ip (py_strip (ascii ''hello'')) = Some False" by simp
  show ?thesis using h rejected_text_gets_guidance [OF h, of google_world] by simp
qed

section \<open>The organization\<close>



lemma handle_message_never_raises: "handle_message w text \<noteq> None"
  using is_valid_ip_total [of "py_strip text"]
  by (auto simp add: handle_message_def split: option.splits prod.splits bool.splits)


end
